theory Spec2Isabelle
  imports Main
begin

section \<open>JavaScript values\<close>

text \<open>
  The handlers of \<^verbatim>\<open>src/index.js\<close> work on dynamically typed values: what
  \<^verbatim>\<open>JSON.parse\<close> returns, what a property read returns (\<open>Undefined\<close> for an
  absent property) and what the database driver puts into a row.  The number type \<open>'n\<close>
  is a parameter: JavaScript numbers are IEEE-754 doubles, and nothing below depends on
  how they round.  An object is the list of its own properties, each key once.
\<close>

datatype 'n jsval =
    Undefined
  | Null
  | Bool bool
  | Num 'n
  | Str string
  | Arr "'n jsval list"
  | Obj "(string \<times> 'n jsval) list"

datatype exn = TypeError | SyntaxError | Error string

text \<open>
  The primitives of the JavaScript runtime that the repository calls and does not define.
  \<open>JSON_parse\<close> is \<open>None\<close> where \<^verbatim>\<open>JSON.parse\<close> throws its SyntaxError;
  \<open>num_lit\<close> denotes an integer literal of the source (\<^verbatim>\<open>0\<close>, \<^verbatim>\<open>1\<close>,
  \<^verbatim>\<open>3306\<close>); \<open>num_falsy\<close> holds of the numbers that are false as a condition
  (\<^verbatim>\<open>+0\<close>, \<^verbatim>\<open>-0\<close>, \<^verbatim>\<open>NaN\<close>); \<open>num_same\<close> is the comparison of number keys
  in a \<^verbatim>\<open>Map\<close> (SameValueZero); \<open>StringToNumber\<close> is \<^verbatim>\<open>Number(x)\<close> on a string;
  \<open>ObjectToNumber\<close> is \<^verbatim>\<open>Number(x)\<close> on an array or object, where the conversion
  to a primitive value can throw a TypeError (\<open>Inl\<close>), as it does on the parsed JSON
  \<^verbatim>\<open>{"toString": 0}\<close>; \<open>base64_to_utf8\<close> is
  \<^verbatim>\<open>Buffer.from(x, "base64").toString("utf8")\<close>.
\<close>

record 'n jsrt =
  JSON_parse :: "string \<Rightarrow> 'n jsval option"
  JSON_stringify :: "'n jsval \<Rightarrow> string"
  num_lit :: "int \<Rightarrow> 'n"
  num_NaN :: "'n"
  num_add :: "'n \<Rightarrow> 'n \<Rightarrow> 'n"
  num_mul :: "'n \<Rightarrow> 'n \<Rightarrow> 'n"
  num_falsy :: "'n \<Rightarrow> bool"
  num_same :: "'n \<Rightarrow> 'n \<Rightarrow> bool"
  StringToNumber :: "string \<Rightarrow> 'n"
  ObjectToNumber :: "'n jsval \<Rightarrow> exn + 'n"
  base64_to_utf8 :: "string \<Rightarrow> string"

text \<open>
  A property read \<^verbatim>\<open>v.k\<close>, for the property names the source reads (\<^verbatim>\<open>items\<close>,
  \<^verbatim>\<open>productId\<close>, \<^verbatim>\<open>quantity\<close>, \<^verbatim>\<open>host\<close>, ...; none of them is a property of a
  built-in prototype): a TypeError on \<^verbatim>\<open>null\<close> and \<^verbatim>\<open>undefined\<close>, the own property of
  an object, \<^verbatim>\<open>undefined\<close> otherwise.
\<close>

fun js_get :: "'n jsval \<Rightarrow> string \<Rightarrow> 'n jsval" where
  "js_get (Obj kvs) k = (case map_of kvs k of None \<Rightarrow> Undefined | Some v \<Rightarrow> v)"
| "js_get v k = Undefined"

definition nullish :: "'n jsval \<Rightarrow> bool" where
  "nullish v = (v = Undefined \<or> v = Null)"

definition get_prop :: "'n jsval \<Rightarrow> string \<Rightarrow> exn + 'n jsval" where
  "get_prop v k = (if nullish v then Inl TypeError else Inr (js_get v k))"

text \<open>The truth value of a value used as a condition (\<^verbatim>\<open>!x\<close>, \<^verbatim>\<open>x ? a : b\<close>, \<^verbatim>\<open>x || y\<close>).\<close>

fun ToBoolean :: "'n jsrt \<Rightarrow> 'n jsval \<Rightarrow> bool" where
  "ToBoolean rt Undefined = False"
| "ToBoolean rt Null = False"
| "ToBoolean rt (Bool b) = b"
| "ToBoolean rt (Num n) = (\<not> num_falsy rt n)"
| "ToBoolean rt (Str s) = (s \<noteq> [])"
| "ToBoolean rt (Arr xs) = True"
| "ToBoolean rt (Obj kvs) = True"

text \<open>
  \<^verbatim>\<open>Number(x)\<close>.  On a primitive value it returns a number; on an array or object it
  returns a number or throws.
\<close>

fun Number :: "'n jsrt \<Rightarrow> 'n jsval \<Rightarrow> exn + 'n" where
  "Number rt Undefined = Inr (num_NaN rt)"
| "Number rt Null = Inr (num_lit rt 0)"
| "Number rt (Bool b) = Inr (num_lit rt (if b then 1 else 0))"
| "Number rt (Num n) = Inr n"
| "Number rt (Str s) = Inr (StringToNumber rt s)"
| "Number rt (Arr xs) = ObjectToNumber rt (Arr xs)"
| "Number rt (Obj kvs) = ObjectToNumber rt (Obj kvs)"

text \<open>\<^verbatim>\<open>a || b\<close>.\<close>

definition js_or :: "'n jsrt \<Rightarrow> 'n jsval \<Rightarrow> 'n jsval \<Rightarrow> 'n jsval" where
  "js_or rt a b = (if ToBoolean rt a then a else b)"

definition Array_isArray :: "'n jsval \<Rightarrow> bool" where
  "Array_isArray v = (case v of Arr xs \<Rightarrow> True | _ \<Rightarrow> False)"

text \<open>The elements of an array; read only behind \<open>Array_isArray\<close>.\<close>

definition elements :: "'n jsval \<Rightarrow> 'n jsval list" where
  "elements v = (case v of Arr xs \<Rightarrow> xs | _ \<Rightarrow> [])"

text \<open>
  \<^verbatim>\<open>items.map(i => i.k)\<close>: the property of every element in order; the first element
  that is \<^verbatim>\<open>null\<close> throws.
\<close>

fun map_prop :: "string \<Rightarrow> 'n jsval list \<Rightarrow> exn + 'n jsval list" where
  "map_prop k [] = Inr []"
| "map_prop k (x # xs) =
     (case get_prop x k of
        Inl e \<Rightarrow> Inl e
      | Inr v \<Rightarrow> (case map_prop k xs of Inl e \<Rightarrow> Inl e | Inr vs \<Rightarrow> Inr (v # vs)))"

subsection \<open>The price map\<close>

text \<open>
  Equality of \<^verbatim>\<open>Map\<close> keys (SameValueZero).  Arrays and objects are compared by
  identity: a key that comes from a database row and a key that comes from the parsed
  request are never the same object.
\<close>

fun SameValueZero :: "'n jsrt \<Rightarrow> 'n jsval \<Rightarrow> 'n jsval \<Rightarrow> bool" where
  "SameValueZero rt Undefined Undefined = True"
| "SameValueZero rt Null Null = True"
| "SameValueZero rt (Bool a) (Bool b) = (a = b)"
| "SameValueZero rt (Num a) (Num b) = num_same rt a b"
| "SameValueZero rt (Str a) (Str b) = (a = b)"
| "SameValueZero rt a b = False"

text \<open>
  \<^verbatim>\<open>new Map(entries)\<close> keeps, for equal keys, the value of the last entry; \<open>Map_get\<close>
  is \<^verbatim>\<open>m.get(k)\<close>, \<open>None\<close> for \<^verbatim>\<open>undefined\<close> (the values stored are numbers,
  so \<^verbatim>\<open>undefined\<close> means that the key is absent).
\<close>

type_synonym 'n price_map = "('n jsval \<times> 'n) list"

definition Map_get :: "'n jsrt \<Rightarrow> 'n price_map \<Rightarrow> 'n jsval \<Rightarrow> 'n option" where
  "Map_get rt m k =
     (case filter (\<lambda>kv. SameValueZero rt (fst kv) k) (rev m) of
        [] \<Rightarrow> None
      | kv # _ \<Rightarrow> Some (snd kv))"

section \<open>The environment: process variables, secret store, database\<close>

text \<open>
  The answer of \<^verbatim>\<open>getSecretValue\<close>: \<^verbatim>\<open>SecretString\<close> is a string or absent,
  \<^verbatim>\<open>SecretBinary\<close> a buffer (its bytes here) or absent.
\<close>

record secret_value =
  SecretString :: "string option"
  SecretBinary :: "string option"

text \<open>
  The object \<^verbatim>\<open>cachedConfig\<close>, and the options of \<^verbatim>\<open>mysql.createPool\<close>.  A pool is
  represented by the options it was created with; what the database answers through it
  is a field of the environment below.
\<close>

record 'n dbconfig =
  host :: "'n jsval"
  user :: "'n jsval"
  password :: "'n jsval"
  database :: "'n jsval"
  port :: "'n"

record 'n pool_opts = "'n dbconfig" +
  waitForConnections :: bool
  connectionLimit :: "'n"
  queueLimit :: "'n"

text \<open>A row of \<^verbatim>\<open>SELECT id, price FROM products\<close>.\<close>

record 'n product_row =
  row_id :: "'n jsval"
  row_price :: "'n jsval"

text \<open>
  What the handlers reach outside the process.  Each collaborator is called at most once
  in an invocation, so its behaviour in that invocation is a function of the argument:
  \<open>Inl\<close> is the exception it throws.  \<open>query_prices ids\<close> is
  \<^verbatim>\<open>pool.query("SELECT id, price FROM products WHERE id IN (?)", [ids])\<close>,
  \<open>query_insert total\<close> is the \<^verbatim>\<open>INSERT INTO orders\<close> (it returns the
  \<^verbatim>\<open>insertId\<close>) and \<open>query_products\<close> is the \<^verbatim>\<open>SELECT\<close> of the product listing.
\<close>

record 'n sys =
  env :: "string \<Rightarrow> string option"
  getSecretValue :: "string \<Rightarrow> exn + secret_value"
  createPool :: "'n pool_opts \<Rightarrow> exn + unit"
  query_prices :: "'n jsval list \<Rightarrow> exn + 'n product_row list"
  query_insert :: "'n \<Rightarrow> exn + nat"
  query_products :: "exn + 'n jsval list"

text \<open>The module's variables \<^verbatim>\<open>pool\<close> and \<^verbatim>\<open>cachedConfig\<close>.\<close>

record 'n mstate =
  pool :: "'n pool_opts option"
  cachedConfig :: "'n dbconfig option"

text \<open>The calls an invocation issues, in order, each with how it ended.\<close>

datatype 'n call =
    GetSecretValue string
  | CreatePool "'n pool_opts"
  | QueryPrices "'n jsval list"
  | InsertOrder 'n
  | QueryProducts

datatype outcome = Returned | Threw

type_synonym 'n trace = "('n call \<times> outcome) list"

section \<open>src/index.js\<close>

text \<open>
  An \<^verbatim>\<open>async\<close> function is modelled by what one invocation does from its first
  statement to its \<^verbatim>\<open>return\<close>: a result (\<open>Inl\<close> the exception thrown), the module's
  variables afterwards, and the calls issued.  Writes to the console are left out.

  \<open>getDbConfig\<close>, lines 9 to 42.  \<^verbatim>\<open>JSON.parse(undefined)\<close> parses the string
  \<^verbatim>\<open>"undefined"\<close>.  Once \<^verbatim>\<open>parsed.host\<close> has been read without a TypeError,
  \<open>parsed\<close> is neither \<^verbatim>\<open>null\<close> nor \<^verbatim>\<open>undefined\<close> and the later reads cannot
  throw.  \<^verbatim>\<open>Number(parsed.port)\<close> of line 33 can throw, and does so before the check of
  line 35.
\<close>

definition getDbConfig ::
  "'n jsrt \<Rightarrow> 'n sys \<Rightarrow> 'n mstate \<Rightarrow> (exn + 'n dbconfig) \<times> 'n mstate \<times> 'n trace" where
  "getDbConfig rt sys st =
     (case cachedConfig st of
        Some c \<Rightarrow> (Inr c, st, [])
      | None \<Rightarrow>
          (case env sys ''DB_SECRET_ARN'' of
             None \<Rightarrow> (Inl (Error ''Missing DB_SECRET_ARN env var''), st, [])
           | Some secretArn \<Rightarrow>
               if secretArn = [] then (Inl (Error ''Missing DB_SECRET_ARN env var''), st, [])
               else
                 (case getSecretValue sys secretArn of
                    Inl e \<Rightarrow> (Inl e, st, [(GetSecretValue secretArn, Threw)])
                  | Inr res \<Rightarrow>
                      let cs = [(GetSecretValue secretArn, Returned)];
                          secretString =
                            (if (SecretString res = None \<or> SecretString res = Some [])
                                \<and> SecretBinary res \<noteq> None
                             then map_option (base64_to_utf8 rt) (SecretBinary res)
                             else SecretString res)
                      in
                        (case JSON_parse rt
                                (case secretString of None \<Rightarrow> ''undefined'' | Some s \<Rightarrow> s) of
                           None \<Rightarrow> (Inl SyntaxError, st, cs)
                         | Some parsed \<Rightarrow>
                             (case get_prop parsed ''host'' of
                                Inl e \<Rightarrow> (Inl e, st, cs)
                              | Inr host' \<Rightarrow>
                                  let user' = js_get parsed ''username'';
                                      password' = js_get parsed ''password'';
                                      database' =
                                        js_or rt
                                          (js_or rt (js_get parsed ''dbname'')
                                             (js_get parsed ''database''))
                                          (Str ''storedb'')
                                  in
                                    (case (if ToBoolean rt (js_get parsed ''port'')
                                           then Number rt (js_get parsed ''port'')
                                           else Inr (num_lit rt 3306)) of
                                       Inl e \<Rightarrow> (Inl e, st, cs)
                                     | Inr port' \<Rightarrow>
                                         if \<not> ToBoolean rt host' \<or> \<not> ToBoolean rt user'
                                            \<or> \<not> ToBoolean rt password'
                                         then (Inl (Error ''DB secret missing required fields''),
                                               st, cs)
                                         else
                                           let cfg = \<lparr>host = host', user = user',
                                                      password = password',
                                                      database = database', port = port'\<rparr>
                                           in (Inr cfg, st\<lparr>cachedConfig := Some cfg\<rparr>, cs)))))))"

text \<open>\<open>getPool\<close>, lines 44 to 60.\<close>

definition getPool ::
  "'n jsrt \<Rightarrow> 'n sys \<Rightarrow> 'n mstate \<Rightarrow> (exn + 'n pool_opts) \<times> 'n mstate \<times> 'n trace" where
  "getPool rt sys st =
     (case pool st of
        Some p \<Rightarrow> (Inr p, st, [])
      | None \<Rightarrow>
          (case getDbConfig rt sys st of
             (Inl e, st1, cs) \<Rightarrow> (Inl e, st1, cs)
           | (Inr cfg, st1, cs) \<Rightarrow>
               let opts = \<lparr>host = host cfg, user = user cfg, password = password cfg,
                           database = database cfg, port = port cfg,
                           waitForConnections = True, connectionLimit = num_lit rt 5,
                           queueLimit = num_lit rt 0\<rparr>
               in
                 (case createPool sys opts of
                    Inl e \<Rightarrow> (Inl e, st1, cs @ [(CreatePool opts, Threw)])
                  | Inr u \<Rightarrow>
                      (Inr opts, st1\<lparr>pool := Some opts\<rparr>, cs @ [(CreatePool opts, Returned)]))))"

text \<open>\<open>response\<close>, lines 62 to 73, and the envelope it builds.\<close>

record envelope =
  statusCode :: nat
  headers :: "(string \<times> string) list"
  body :: string

definition response :: "'n jsrt \<Rightarrow> nat \<Rightarrow> 'n jsval \<Rightarrow> envelope" where
  "response rt code b =
     \<lparr>statusCode = code,
      headers = [(''Content-Type'', ''application/json''),
                 (''Access-Control-Allow-Origin'', ''*''),
                 (''Access-Control-Allow-Headers'', ''Content-Type''),
                 (''Access-Control-Allow-Methods'', ''GET,POST,OPTIONS'')],
      body = JSON_stringify rt b\<rparr>"

definition health :: "'n jsrt \<Rightarrow> envelope" where
  "health rt = response rt 200 (Obj [(''status'', Str ''ok'')])"

text \<open>
  \<open>getProducts\<close>, lines 79 to 90.  A handler returns its envelope, the module's
  variables as it leaves them, and the calls it issued.  The \<^verbatim>\<open>catch\<close> of the handler
  is the \<open>Inl\<close> branch of each step.
\<close>

definition getProducts :: "'n jsrt \<Rightarrow> 'n sys \<Rightarrow> 'n mstate \<Rightarrow> envelope \<times> 'n mstate \<times> 'n trace" where
  "getProducts rt sys st =
     (case getPool rt sys st of
        (Inl err, st1, cs) \<Rightarrow> (response rt 500 (Obj [(''error'', Str ''DB_ERROR'')]), st1, cs)
      | (Inr p, st1, cs) \<Rightarrow>
          (case query_products sys of
             Inl err \<Rightarrow>
               (response rt 500 (Obj [(''error'', Str ''DB_ERROR'')]), st1,
                cs @ [(QueryProducts, Threw)])
           | Inr rows \<Rightarrow> (response rt 200 (Arr rows), st1, cs @ [(QueryProducts, Returned)])))"

text \<open>
  The event of an invocation: \<^verbatim>\<open>event.body\<close> is a string, or \<open>None\<close> for
  \<^verbatim>\<open>null\<close> and \<^verbatim>\<open>undefined\<close>.
\<close>

record event =
  event_body :: "string option"

text \<open>
  The \<^verbatim>\<open>for\<close> loop of \<^verbatim>\<open>createOrder\<close>: it either leaves the handler with the
  \<^verbatim>\<open>PRODUCT_NOT_FOUND\<close> envelope, or runs to its end with the total, or throws: on
  an item that is \<^verbatim>\<open>null\<close>, and on a quantity that \<^verbatim>\<open>Number\<close> throws on (line 125,
  before the price of the item is looked at).
\<close>

datatype 'n loop_result = Return envelope | Completed 'n

fun total_loop ::
  "'n jsrt \<Rightarrow> 'n price_map \<Rightarrow> 'n jsval list \<Rightarrow> 'n \<Rightarrow> exn + 'n loop_result" where
  "total_loop rt priceMap [] tot = Inr (Completed tot)"
| "total_loop rt priceMap (item # rest) tot =
     (case get_prop item ''quantity'' of
        Inl e \<Rightarrow> Inl e
      | Inr quantity \<Rightarrow>
          (case (if ToBoolean rt quantity then Number rt quantity else Inr (num_lit rt 1)) of
             Inl e \<Rightarrow> Inl e
           | Inr qty \<Rightarrow>
               (case Map_get rt priceMap (js_get item ''productId'') of
                  None \<Rightarrow>
                    Inr (Return (response rt 400
                           (Obj [(''error'', Str ''PRODUCT_NOT_FOUND''),
                                 (''productId'', js_get item ''productId'')])))
                | Some price \<Rightarrow>
                    total_loop rt priceMap rest (num_add rt tot (num_mul rt price qty)))))"

text \<open>
  \<^verbatim>\<open>products.map(p => [p.id, Number(p.price)])\<close>, the entries of the price map; the
  first price that \<^verbatim>\<open>Number\<close> throws on ends it.
\<close>

fun price_entries :: "'n jsrt \<Rightarrow> 'n product_row list \<Rightarrow> exn + 'n price_map" where
  "price_entries rt [] = Inr []"
| "price_entries rt (p # ps) =
     (case Number rt (row_price p) of
        Inl e \<Rightarrow> Inl e
      | Inr n \<Rightarrow>
          (case price_entries rt ps of Inl e \<Rightarrow> Inl e | Inr m \<Rightarrow> Inr ((row_id p, n) # m)))"

text \<open>
  \<open>createOrder\<close>, lines 92 to 153.  The inner \<^verbatim>\<open>try\<close> holds \<^verbatim>\<open>JSON.parse\<close>
  alone; every other exception reaches the outer \<^verbatim>\<open>catch\<close>, which answers
  \<^verbatim>\<open>500 {error: "DB_ERROR"}\<close>.
\<close>

definition createOrder ::
  "'n jsrt \<Rightarrow> 'n sys \<Rightarrow> event \<Rightarrow> 'n mstate \<Rightarrow> envelope \<times> 'n mstate \<times> 'n trace" where
  "createOrder rt sys ev st =
     (if event_body ev = None \<or> event_body ev = Some []
      then (response rt 400 (Obj [(''error'', Str ''EMPTY_BODY'')]), st, [])
      else
        (case JSON_parse rt (the (event_body ev)) of
           None \<Rightarrow> (response rt 400 (Obj [(''error'', Str ''INVALID_JSON'')]), st, [])
         | Some payload \<Rightarrow>
             (case get_prop payload ''items'' of
                Inl err \<Rightarrow> (response rt 500 (Obj [(''error'', Str ''DB_ERROR'')]), st, [])
              | Inr items \<Rightarrow>
                  if \<not> Array_isArray items \<or> length (elements items) = 0
                  then (response rt 400 (Obj [(''error'', Str ''EMPTY_CART'')]), st, [])
                  else
                    (case getPool rt sys st of
                       (Inl err, st1, cs) \<Rightarrow>
                         (response rt 500 (Obj [(''error'', Str ''DB_ERROR'')]), st1, cs)
                     | (Inr p, st1, cs) \<Rightarrow>
                         (case map_prop ''productId'' (elements items) of
                            Inl err \<Rightarrow>
                              (response rt 500 (Obj [(''error'', Str ''DB_ERROR'')]), st1, cs)
                          | Inr ids \<Rightarrow>
                              (case query_prices sys ids of
                                 Inl err \<Rightarrow>
                                   (response rt 500 (Obj [(''error'', Str ''DB_ERROR'')]), st1,
                                    cs @ [(QueryPrices ids, Threw)])
                               | Inr products \<Rightarrow>
                                   let cs1 = cs @ [(QueryPrices ids, Returned)] in
                                     (case price_entries rt products of
                                        Inl err \<Rightarrow>
                                          (response rt 500 (Obj [(''error'', Str ''DB_ERROR'')]),
                                           st1, cs1)
                                      | Inr priceMap \<Rightarrow>
                                          (case total_loop rt priceMap (elements items)
                                                  (num_lit rt 0) of
                                             Inl err \<Rightarrow>
                                               (response rt 500
                                                  (Obj [(''error'', Str ''DB_ERROR'')]), st1, cs1)
                                           | Inr (Return r) \<Rightarrow> (r, st1, cs1)
                                           | Inr (Completed tot) \<Rightarrow>
                                               (case query_insert sys tot of
                                                  Inl err \<Rightarrow>
                                                    (response rt 500
                                                       (Obj [(''error'', Str ''DB_ERROR'')]), st1,
                                                     cs1 @ [(InsertOrder tot, Threw)])
                                                | Inr insertId \<Rightarrow>
                                                    (response rt 201
                                                       (Obj [(''status'', Str ''ok''),
                                                             (''total'', Num tot)]), st1,
                                                     cs1 @ [(InsertOrder tot, Returned)]))))))))))"

section \<open>src/.aws-sam/build/HealthFunction/index.js\<close>

text \<open>
  The built copy takes the connection parameters from the process variables; it has no
  \<^verbatim>\<open>getDbConfig\<close>.  A process variable is a string or \<^verbatim>\<open>undefined\<close>.
\<close>

definition process_env :: "'n sys \<Rightarrow> string \<Rightarrow> 'n jsval" where
  "process_env sys k = (case env sys k of None \<Rightarrow> Undefined | Some s \<Rightarrow> Str s)"

definition getPool_build ::
  "'n jsrt \<Rightarrow> 'n sys \<Rightarrow> 'n mstate \<Rightarrow> (exn + 'n pool_opts) \<times> 'n mstate \<times> 'n trace" where
  "getPool_build rt sys st =
     (case pool st of
        Some p \<Rightarrow> (Inr p, st, [])
      | None \<Rightarrow>
          (case (if ToBoolean rt (process_env sys ''DB_PORT'')
                 then Number rt (process_env sys ''DB_PORT'')
                 else Inr (num_lit rt 3306)) of
             Inl e \<Rightarrow> (Inl e, st, [])
           | Inr port' \<Rightarrow>
               let opts = \<lparr>host = process_env sys ''DB_HOST'',
                           user = process_env sys ''DB_USER'',
                           password = process_env sys ''DB_PASSWORD'',
                           database = js_or rt (process_env sys ''DB_NAME'') (Str ''tienda''),
                           port = port',
                           waitForConnections = True, connectionLimit = num_lit rt 5,
                           queueLimit = num_lit rt 0\<rparr>
               in
                 (case createPool sys opts of
                    Inl e \<Rightarrow> (Inl e, st, [(CreatePool opts, Threw)])
                  | Inr u \<Rightarrow>
                      (Inr opts, st\<lparr>pool := Some opts\<rparr>, [(CreatePool opts, Returned)]))))"

definition getProducts_build ::
  "'n jsrt \<Rightarrow> 'n sys \<Rightarrow> 'n mstate \<Rightarrow> envelope \<times> 'n mstate \<times> 'n trace" where
  "getProducts_build rt sys st =
     (case getPool_build rt sys st of
        (Inl err, st1, cs) \<Rightarrow> (response rt 500 (Obj [(''error'', Str ''DB_ERROR'')]), st1, cs)
      | (Inr p, st1, cs) \<Rightarrow>
          (case query_products sys of
             Inl err \<Rightarrow>
               (response rt 500 (Obj [(''error'', Str ''DB_ERROR'')]), st1,
                cs @ [(QueryProducts, Threw)])
           | Inr rows \<Rightarrow> (response rt 200 (Arr rows), st1, cs @ [(QueryProducts, Returned)])))"

definition createOrder_build ::
  "'n jsrt \<Rightarrow> 'n sys \<Rightarrow> event \<Rightarrow> 'n mstate \<Rightarrow> envelope \<times> 'n mstate \<times> 'n trace" where
  "createOrder_build rt sys ev st =
     (if event_body ev = None \<or> event_body ev = Some []
      then (response rt 400 (Obj [(''error'', Str ''EMPTY_BODY'')]), st, [])
      else
        (case JSON_parse rt (the (event_body ev)) of
           None \<Rightarrow> (response rt 400 (Obj [(''error'', Str ''INVALID_JSON'')]), st, [])
         | Some payload \<Rightarrow>
             (case get_prop payload ''items'' of
                Inl err \<Rightarrow> (response rt 500 (Obj [(''error'', Str ''DB_ERROR'')]), st, [])
              | Inr items \<Rightarrow>
                  if \<not> Array_isArray items \<or> length (elements items) = 0
                  then (response rt 400 (Obj [(''error'', Str ''EMPTY_CART'')]), st, [])
                  else
                    (case getPool_build rt sys st of
                       (Inl err, st1, cs) \<Rightarrow>
                         (response rt 500 (Obj [(''error'', Str ''DB_ERROR'')]), st1, cs)
                     | (Inr p, st1, cs) \<Rightarrow>
                         (case map_prop ''productId'' (elements items) of
                            Inl err \<Rightarrow>
                              (response rt 500 (Obj [(''error'', Str ''DB_ERROR'')]), st1, cs)
                          | Inr ids \<Rightarrow>
                              (case query_prices sys ids of
                                 Inl err \<Rightarrow>
                                   (response rt 500 (Obj [(''error'', Str ''DB_ERROR'')]), st1,
                                    cs @ [(QueryPrices ids, Threw)])
                               | Inr products \<Rightarrow>
                                   let cs1 = cs @ [(QueryPrices ids, Returned)] in
                                     (case price_entries rt products of
                                        Inl err \<Rightarrow>
                                          (response rt 500 (Obj [(''error'', Str ''DB_ERROR'')]),
                                           st1, cs1)
                                      | Inr priceMap \<Rightarrow>
                                          (case total_loop rt priceMap (elements items)
                                                  (num_lit rt 0) of
                                             Inl err \<Rightarrow>
                                               (response rt 500
                                                  (Obj [(''error'', Str ''DB_ERROR'')]), st1, cs1)
                                           | Inr (Return r) \<Rightarrow> (r, st1, cs1)
                                           | Inr (Completed tot) \<Rightarrow>
                                               (case query_insert sys tot of
                                                  Inl err \<Rightarrow>
                                                    (response rt 500
                                                       (Obj [(''error'', Str ''DB_ERROR'')]), st1,
                                                     cs1 @ [(InsertOrder tot, Threw)])
                                                | Inr insertId \<Rightarrow>
                                                    (response rt 201
                                                       (Obj [(''status'', Str ''ok''),
                                                             (''total'', Num tot)]), st1,
                                                     cs1 @ [(InsertOrder tot, Returned)]))))))))))"

section \<open>The notions of the specification\<close>

text \<open>
  \<open>catalog_price\<close> is \<^verbatim>\<open>price(productId)\<close>: what the price map built from the rows of
  the catalog lookup holds for an identifier (lines 121 and 126 of \<^verbatim>\<open>src/index.js\<close>);
  there is none when the map cannot be built.
\<close>

definition catalog_price :: "'n jsrt \<Rightarrow> 'n product_row list \<Rightarrow> 'n jsval \<Rightarrow> 'n option" where
  "catalog_price rt products pid =
     (case price_entries rt products of Inl e \<Rightarrow> None | Inr m \<Rightarrow> Map_get rt m pid)"

text \<open>
  The next two definitions follow the words of the specification, not the code: the
  quantity of an item "if absent or falsy, defaults to 1; otherwise coerced to a numeric
  value" (the coercion is \<open>Number\<close>, which can throw), and the total "the sum over all
  cart items of price(productId) x quantity", accumulated in input order from \<^verbatim>\<open>0\<close>.
\<close>

definition spec_quantity :: "'n jsrt \<Rightarrow> 'n jsval \<Rightarrow> exn + 'n" where
  "spec_quantity rt item =
     (let q = js_get item ''quantity''
      in if q = Undefined \<or> \<not> ToBoolean rt q then Inr (num_lit rt 1) else Number rt q)"


text \<open>The calls to the two collaborators of the specification.\<close>

fun is_lookup :: "'n call \<times> outcome \<Rightarrow> bool" where
  "is_lookup (QueryPrices ids, oc) = True"
| "is_lookup c = False"

fun is_write :: "'n call \<times> outcome \<Rightarrow> bool" where
  "is_write (InsertOrder t, oc) = True"
| "is_write c = False"

text \<open>The envelope of every failure that the \<^verbatim>\<open>catch\<close> of a handler reports.\<close>

definition db_error :: "'n jsrt \<Rightarrow> envelope" where
  "db_error rt = response rt 500 (Obj [(''error'', Str ''DB_ERROR'')])"

text \<open>
  Steps 1 to 3 of the specification fail: the body is absent or empty, or it does not
  parse, or the \<^verbatim>\<open>items\<close> of the parsed payload is not a non-empty array.
\<close>

definition steps_1_3_fail :: "'n jsrt \<Rightarrow> event \<Rightarrow> bool" where
  "steps_1_3_fail rt ev =
     (case event_body ev of
        None \<Rightarrow> True
      | Some b \<Rightarrow>
          b = [] \<or>
          (case JSON_parse rt b of
             None \<Rightarrow> True
           | Some payload \<Rightarrow>
               (case get_prop payload ''items'' of
                  Inl e \<Rightarrow> False
                | Inr items \<Rightarrow> \<not> Array_isArray items \<or> elements items = [])))"

text \<open>What \<^verbatim>\<open>JSON.stringify\<close> writes as an object or an array.\<close>

fun is_object :: "'n jsval \<Rightarrow> bool" where
  "is_object (Obj kvs) = True"
| "is_object (Arr xs) = True"
| "is_object v = False"

text \<open>A call to either of them.\<close>

definition is_store_call :: "'n call \<times> outcome \<Rightarrow> bool" where
  "is_store_call c = (is_lookup c \<or> is_write c)"

section \<open>A sample runtime and environment\<close>

text \<open>
  For the examples: a runtime whose numbers are the integers and \<^verbatim>\<open>NaN\<close> (\<open>None\<close>),
  on which it adds, multiplies and compares as JavaScript does on small integers.  Its
  \<open>JSON_parse\<close> knows the request bodies and secrets listed here and rejects every
  other string; its \<open>JSON_stringify\<close> writes strings without escapes; its
  \<open>StringToNumber\<close> is right on the empty string only; its \<open>ObjectToNumber\<close> is
  right on plain objects, where \<^verbatim>\<open>Number\<close> throws a TypeError if the object has a
  property \<^verbatim>\<open>toString\<close> of its own (a parsed value is never callable) and is
  \<^verbatim>\<open>NaN\<close> otherwise.  No example depends on more.
\<close>

type_synonym snum = "int option"

definition sample_add :: "snum \<Rightarrow> snum \<Rightarrow> snum" where
  "sample_add a b =
     (case a of None \<Rightarrow> None | Some x \<Rightarrow> (case b of None \<Rightarrow> None | Some y \<Rightarrow> Some (x + y)))"

definition sample_mul :: "snum \<Rightarrow> snum \<Rightarrow> snum" where
  "sample_mul a b =
     (case a of None \<Rightarrow> None | Some x \<Rightarrow> (case b of None \<Rightarrow> None | Some y \<Rightarrow> Some (x * y)))"

fun sample_digits :: "nat \<Rightarrow> string" where
  "sample_digits n =
     (if n < 10 then [''0123456789'' ! n]
      else sample_digits (n div 10) @ [''0123456789'' ! (n mod 10)])"

declare sample_digits.simps [simp del]

definition quoted :: "string \<Rightarrow> string" where
  "quoted s = CHR 0x22 # s @ [CHR 0x22]"

fun commas :: "string list \<Rightarrow> string" where
  "commas [] = []"
| "commas [x] = x"
| "commas (x # y # ys) = x @ '','' @ commas (y # ys)"

fun sample_stringify :: "snum jsval \<Rightarrow> string" where
  "sample_stringify Undefined = ''null''"
| "sample_stringify Null = ''null''"
| "sample_stringify (Bool b) = (if b then ''true'' else ''false'')"
| "sample_stringify (Num None) = ''null''"
| "sample_stringify (Num (Some i)) =
     (if i < 0 then ''-'' @ sample_digits (nat (- i)) else sample_digits (nat i))"
| "sample_stringify (Str s) = quoted s"
| "sample_stringify (Arr xs) = ''['' @ commas (map sample_stringify xs) @ '']''"
| "sample_stringify (Obj kvs) =
     ''{'' @ commas (map (\<lambda>kv. quoted (fst kv) @ '':'' @ sample_stringify (snd kv))
                     (filter (\<lambda>kv. snd kv \<noteq> Undefined) kvs)) @ ''}''"

definition body_null :: string where
  \<open>body_null = ''null''\<close>

definition body_not_json :: string where
  \<open>body_not_json = ''{not json''\<close>

definition body_empty_cart :: string where
  \<open>body_empty_cart = ''{"items":[]}''\<close>

definition body_A :: string where
  \<open>body_A = ''{"items":[{"productId":"A"}]}''\<close>

definition body_ABA :: string where
  \<open>body_ABA = ''{"items":[{"productId":"A","quantity":2},{"productId":"B","quantity":1},{"productId":"A"}]}''\<close>

definition body_AxB :: string where
  \<open>body_AxB = ''{"items":[{"productId":"A"},{"productId":"x"},{"productId":"B"}]}''\<close>

definition body_x :: string where
  \<open>body_x = ''{"items":[{"productId":"x"}]}''\<close>

definition body_x_null :: string where
  \<open>body_x_null = ''{"items":[{"productId":"x"},null]}''\<close>

definition body_A_qty :: string where
  \<open>body_A_qty = ''{"items":[{"productId":"A","quantity":{"toString":0}}]}''\<close>

definition secret_port :: string where
  \<open>secret_port = ''{"host":"db.internal","username":"shop","password":"pw","port":{"toString":0}}''\<close>

definition secret_username :: string where
  \<open>secret_username = ''{"host":"db.internal","username":"shop","password":"pw"}''\<close>

definition secret_user :: string where
  \<open>secret_user = ''{"host":"db.internal","user":"shop","password":"pw"}''\<close>

definition cart_A :: "snum jsval list" where
  "cart_A = [Obj [(''productId'', Str ''A'')]]"

definition cart_ABA :: "snum jsval list" where
  "cart_ABA =
     [Obj [(''productId'', Str ''A''), (''quantity'', Num (Some 2))],
      Obj [(''productId'', Str ''B''), (''quantity'', Num (Some 1))],
      Obj [(''productId'', Str ''A'')]]"

definition cart_AxB :: "snum jsval list" where
  "cart_AxB =
     [Obj [(''productId'', Str ''A'')], Obj [(''productId'', Str ''x'')],
      Obj [(''productId'', Str ''B'')]]"

definition sample_parse :: "string \<Rightarrow> snum jsval option" where
  "sample_parse s =
     map_of
       [(body_null, Null),
        (body_empty_cart, Obj [(''items'', Arr [])]),
        (body_A, Obj [(''items'', Arr cart_A)]),
        (body_ABA, Obj [(''items'', Arr cart_ABA)]),
        (body_AxB, Obj [(''items'', Arr cart_AxB)]),
        (secret_username,
         Obj [(''host'', Str ''db.internal''), (''username'', Str ''shop''),
              (''password'', Str ''pw'')]),
        (secret_user,
         Obj [(''host'', Str ''db.internal''), (''user'', Str ''shop''),
              (''password'', Str ''pw'')]),
        (body_x, Obj [(''items'', Arr [Obj [(''productId'', Str ''x'')]])]),
        (body_x_null, Obj [(''items'', Arr [Obj [(''productId'', Str ''x'')], Null])]),
        (body_A_qty,
         Obj [(''items'',
               Arr [Obj [(''productId'', Str ''A''),
                         (''quantity'', Obj [(''toString'', Num (Some 0))])]])]),
        (secret_port,
         Obj [(''host'', Str ''db.internal''), (''username'', Str ''shop''),
              (''password'', Str ''pw''), (''port'', Obj [(''toString'', Num (Some 0))])])] s"

definition sample_object_number :: "snum jsval \<Rightarrow> exn + snum" where
  "sample_object_number v =
     (case v of
        Obj kvs \<Rightarrow> if map_of kvs ''toString'' = None then Inr None else Inl TypeError
      | _ \<Rightarrow> Inr None)"

definition sample_rt :: "snum jsrt" where
  "sample_rt =
     \<lparr>JSON_parse = sample_parse,
      JSON_stringify = sample_stringify,
      num_lit = Some,
      num_NaN = None,
      num_add = sample_add,
      num_mul = sample_mul,
      num_falsy = (\<lambda>n. n = None \<or> n = Some 0),
      num_same = (\<lambda>a b. a = b),
      StringToNumber = (\<lambda>s. if s = [] then Some 0 else None),
      ObjectToNumber = sample_object_number,
      base64_to_utf8 = (\<lambda>s. s)\<rparr>"

definition sample_catalog :: "snum product_row list" where
  "sample_catalog =
     [\<lparr>row_id = Str ''A'', row_price = Num (Some 10)\<rparr>,
      \<lparr>row_id = Str ''B'', row_price = Num (Some 3)\<rparr>]"

text \<open>
  The sample database answers the price query with the rows of \<open>sample_catalog\<close> whose
  identifier is among those asked for; the secret store holds \<open>secret_username\<close>.
\<close>

definition sample_sys :: "snum sys" where
  "sample_sys =
     \<lparr>env = (\<lambda>k. if k = ''DB_SECRET_ARN'' then Some ''arn:sample'' else None),
      getSecretValue = (\<lambda>arn. Inr \<lparr>SecretString = Some secret_username, SecretBinary = None\<rparr>),
      createPool = (\<lambda>opts. Inr ()),
      query_prices = (\<lambda>ids. Inr (filter (\<lambda>r. row_id r \<in> set ids) sample_catalog)),
      query_insert = (\<lambda>t. Inr 1),
      query_products =
        Inr [Obj [(''id'', Str ''A''), (''name'', Str ''apple''), (''price'', Num (Some 10)),
                  (''image_url'', Null)]]\<rparr>"

text \<open>
  The module's variables at a cold start, and in a process that has already built its
  pool from \<open>secret_username\<close>.
\<close>

definition fresh :: "snum mstate" where
  "fresh = \<lparr>pool = None, cachedConfig = None\<rparr>"

definition sample_cfg :: "snum dbconfig" where
  "sample_cfg =
     \<lparr>host = Str ''db.internal'', user = Str ''shop'', password = Str ''pw'',
      database = Str ''storedb'', port = Some 3306\<rparr>"

definition sample_pool :: "snum pool_opts" where
  "sample_pool =
     \<lparr>host = Str ''db.internal'', user = Str ''shop'', password = Str ''pw'',
      database = Str ''storedb'', port = Some 3306, waitForConnections = True,
      connectionLimit = Some 5, queueLimit = Some 0\<rparr>"

definition warm :: "snum mstate" where
  "warm = \<lparr>pool = Some sample_pool, cachedConfig = Some sample_cfg\<rparr>"



text \<open>Variants of the sample environment: the order store fails on every write.\<close>

definition sys_insert_down :: "snum sys" where
  "sys_insert_down = sample_sys\<lparr>query_insert := (\<lambda>t. Inl (Error ''ER_LOCK_WAIT_TIMEOUT''))\<rparr>"

text \<open>
  The secret names the user under the key \<^verbatim>\<open>user\<close>; the process has no
  \<^verbatim>\<open>DB_SECRET_ARN\<close>.
\<close>

definition sys_secret_user :: "snum sys" where
  "sys_secret_user =
     sample_sys\<lparr>getSecretValue :=
       (\<lambda>arn. Inr \<lparr>SecretString = Some secret_user, SecretBinary = None\<rparr>)\<rparr>"

definition sys_no_arn :: "snum sys" where
  "sys_no_arn = sample_sys\<lparr>env := (\<lambda>k. None)\<rparr>"

text \<open>The secret has a port that \<^verbatim>\<open>Number\<close> throws on.\<close>

definition sys_secret_port :: "snum sys" where
  "sys_secret_port =
     sample_sys\<lparr>getSecretValue :=
       (\<lambda>arn. Inr \<lparr>SecretString = Some secret_port, SecretBinary = None\<rparr>)\<rparr>"

section \<open>Properties\<close>

subsection \<open>Reading properties and running the loop\<close>

lemma map_prop_ok:
  "list_all (\<lambda>i. \<not> nullish i) its \<Longrightarrow> map_prop k its = Inr (map (\<lambda>i. js_get i k) its)"
  by (induction its) (simp_all add: get_prop_def)

lemma map_prop_Inr:
  "map_prop k its = Inr ids \<Longrightarrow> list_all (\<lambda>i. \<not> nullish i) its \<and> ids = map (\<lambda>i. js_get i k) its"
  by (induction its arbitrary: ids) (auto simp: get_prop_def split: if_splits sum.splits)

lemma spec_quantity_eq:
  "spec_quantity rt item =
     (if ToBoolean rt (js_get item ''quantity'') then Number rt (js_get item ''quantity'')
      else Inr (num_lit rt 1))"
  by (auto simp: spec_quantity_def Let_def)

lemma total_loop_step:
  "\<not> nullish item \<Longrightarrow> spec_quantity rt item = Inr qty \<Longrightarrow>
   total_loop rt pm (item # rest) t =
     (case Map_get rt pm (js_get item ''productId'') of
        None \<Rightarrow>
          Inr (Return (response rt 400
                 (Obj [(''error'', Str ''PRODUCT_NOT_FOUND''),
                       (''productId'', js_get item ''productId'')])))
      | Some price \<Rightarrow> total_loop rt pm rest (num_add rt t (num_mul rt price qty)))"
  by (simp add: get_prop_def spec_quantity_eq)

lemma total_loop_throws:
  "\<not> nullish item \<Longrightarrow> spec_quantity rt item = Inl e \<Longrightarrow>
   total_loop rt pm (item # rest) t = Inl e"
  by (simp add: get_prop_def spec_quantity_eq)


lemma total_loop_missing:
  "list_all (\<lambda>i. \<not> nullish i \<and> \<not> isl (spec_quantity rt i)
               \<and> Map_get rt pm (js_get i ''productId'') \<noteq> None) pre \<Longrightarrow>
   \<not> nullish bad \<Longrightarrow> \<not> isl (spec_quantity rt bad) \<Longrightarrow>
   Map_get rt pm (js_get bad ''productId'') = None \<Longrightarrow>
   total_loop rt pm (pre @ bad # post) t =
     Inr (Return (response rt 400
            (Obj [(''error'', Str ''PRODUCT_NOT_FOUND''),
                  (''productId'', js_get bad ''productId'')])))"
proof (induction pre arbitrary: t)
  case Nil
  then obtain q where "spec_quantity rt bad = Inr q"
    by (cases "spec_quantity rt bad") auto
  with Nil show ?case
    by (simp add: total_loop_step [where qty = q] del: total_loop.simps)
next
  case (Cons item pre)
  then obtain q where "spec_quantity rt item = Inr q"
    by (cases "spec_quantity rt item") auto
  with Cons show ?case
    by (auto simp: total_loop_step [where qty = q] simp del: total_loop.simps)
qed

lemma total_loop_Return:
  "total_loop rt pm its t = Inr (Return r) \<Longrightarrow>
   \<exists>pid. r = response rt 400 (Obj [(''error'', Str ''PRODUCT_NOT_FOUND''), (''productId'', pid)])"
  by (induction its arbitrary: t) (auto split: sum.splits option.splits if_splits)

lemma price_entries_keys:
  "price_entries rt products = Inr m \<Longrightarrow> map fst m = map row_id products"
  by (induction products arbitrary: m) (auto split: sum.splits)

lemma map_prop_null:
  "nullish i \<Longrightarrow> i \<in> set its \<Longrightarrow> map_prop k its = Inl TypeError"
  by (induction its) (auto simp: get_prop_def split: sum.splits)

lemma statusCode_response [simp]: "statusCode (response rt code b) = code"
  by (simp add: response_def)

lemma body_response [simp]: "body (response rt code b) = JSON_stringify rt b"
  by (simp add: response_def)

subsection \<open>The calls of the pool\<close>

lemma getDbConfig_trace:
  "getDbConfig rt sys st = (res, st1, cs) \<Longrightarrow>
   filter is_lookup cs = [] \<and> filter is_write cs = [] \<and> ((c, Threw) \<in> set cs \<longrightarrow> isl res)"
  by (auto simp: getDbConfig_def Let_def split: option.splits if_splits sum.splits)

lemma getPool_trace:
  "getPool rt sys st = (res, st1, cs) \<Longrightarrow>
   filter is_lookup cs = [] \<and> filter is_write cs = [] \<and> ((c, Threw) \<in> set cs \<longrightarrow> isl res)"
  by (auto simp: getPool_def Let_def split: option.splits sum.splits prod.splits
        dest: getDbConfig_trace)

lemma getPool_no_query:
  "getPool rt sys st = (res, st1, cs) \<Longrightarrow>
   (QueryPrices ids, oc) \<notin> set cs \<and> (InsertOrder t, oc) \<notin> set cs"
  by (auto simp: getPool_def getDbConfig_def Let_def
        split: option.splits if_splits sum.splits prod.splits)

lemma getPool_store_calls:
  "getPool rt sys st = (res, st1, cs) \<Longrightarrow> filter is_store_call cs = []"
  by (auto simp: is_store_call_def filter_empty_conv
        dest: getPool_trace [THEN conjunct1] getPool_trace [THEN conjunct2, THEN conjunct1])

lemma getPool_build_trace:
  "getPool_build rt sys st = (res, st1, cs) \<Longrightarrow> filter is_store_call cs = []"
  by (auto simp: getPool_build_def is_store_call_def Let_def split: option.splits sum.splits)

lemma getDbConfig_parsed:
  assumes "cachedConfig st = None"
    and "env sys ''DB_SECRET_ARN'' = Some arn" and "arn \<noteq> []"
    and "getSecretValue sys arn = Inr res"
    and "SecretString res = Some s" and "s \<noteq> []"
    and "JSON_parse rt s = Some parsed"
  shows "getDbConfig rt sys st =
     (if nullish parsed then (Inl TypeError, st, [(GetSecretValue arn, Returned)])
      else
        (case (if ToBoolean rt (js_get parsed ''port'') then Number rt (js_get parsed ''port'')
               else Inr (num_lit rt 3306)) of
           Inl e \<Rightarrow> (Inl e, st, [(GetSecretValue arn, Returned)])
         | Inr port' \<Rightarrow>
             if \<not> ToBoolean rt (js_get parsed ''host'')
                \<or> \<not> ToBoolean rt (js_get parsed ''username'')
                \<or> \<not> ToBoolean rt (js_get parsed ''password'')
             then (Inl (Error ''DB secret missing required fields''), st,
                   [(GetSecretValue arn, Returned)])
             else
               (Inr \<lparr>host = js_get parsed ''host'', user = js_get parsed ''username'',
                      password = js_get parsed ''password'',
                      database =
                        js_or rt (js_or rt (js_get parsed ''dbname'') (js_get parsed ''database''))
                          (Str ''storedb''),
                      port = port'\<rparr>,
                st\<lparr>cachedConfig := Some
                     \<lparr>host = js_get parsed ''host'', user = js_get parsed ''username'',
                      password = js_get parsed ''password'',
                      database =
                        js_or rt (js_or rt (js_get parsed ''dbname'') (js_get parsed ''database''))
                          (Str ''storedb''),
                      port = port'\<rparr>\<rparr>,
                [(GetSecretValue arn, Returned)])))"
  using assms by (simp add: getDbConfig_def get_prop_def Let_def split: sum.splits)

lemma getPool_config_failed:
  "pool st = None \<Longrightarrow> isl (fst (getDbConfig rt sys st)) \<Longrightarrow> isl (fst (getPool rt sys st))"
  by (auto simp: getPool_def split: prod.splits sum.splits)

lemma getProducts_pool_failed:
  "isl (fst (getPool rt sys st)) \<Longrightarrow> fst (getProducts rt sys st) = db_error rt"
  by (auto simp: getProducts_def db_error_def split: prod.splits sum.splits)

lemma createOrder_pool_failed:
  "isl (fst (getPool rt sys st)) \<Longrightarrow> statusCode (fst (createOrder rt sys ev st)) \<noteq> 201"
  by (auto simp: createOrder_def Let_def
        split: option.splits prod.splits sum.splits)

text \<open>
  An element \<^verbatim>\<open>null\<close> in the \<^verbatim>\<open>items\<close> array: \<^verbatim>\<open>items.map(i => i.productId)\<close>
  throws on it before the lookup, and the \<^verbatim>\<open>catch\<close> answers \<^verbatim>\<open>500\<close>.  The theorems on
  carts below therefore take the items to be other than \<^verbatim>\<open>null\<close>, as the CartItem of
  the specification is.
\<close>

lemma createOrder_null_item:
  assumes "event_body ev = Some b" and "b \<noteq> []"
    and "JSON_parse rt b = Some payload"
    and "get_prop payload ''items'' = Inr (Arr its)"
    and "Null \<in> set its"
    and "getPool rt sys st = (Inr p, st1, cs)"
  shows "createOrder rt sys ev st = (db_error rt, st1, cs)"
proof -
  have "map_prop ''productId'' its = Inl TypeError"
    using assms(5) by (auto intro: map_prop_null simp: nullish_def)
  moreover have "its \<noteq> []"
    using assms(5) by auto
  ultimately show ?thesis
    using assms(1-4,6)
    by (simp add: createOrder_def Array_isArray_def elements_def db_error_def)
qed

subsection \<open>The sample environment, evaluated\<close>

lemma sample_parse_simps:
  "JSON_parse sample_rt body_null = Some Null"
  "JSON_parse sample_rt body_not_json = None"
  "JSON_parse sample_rt body_empty_cart = Some (Obj [(''items'', Arr [])])"
  "JSON_parse sample_rt body_A = Some (Obj [(''items'', Arr cart_A)])"
  "JSON_parse sample_rt body_ABA = Some (Obj [(''items'', Arr cart_ABA)])"
  "JSON_parse sample_rt body_AxB = Some (Obj [(''items'', Arr cart_AxB)])"
  "JSON_parse sample_rt secret_username =
     Some (Obj [(''host'', Str ''db.internal''), (''username'', Str ''shop''),
                (''password'', Str ''pw'')])"
  "JSON_parse sample_rt secret_user =
     Some (Obj [(''host'', Str ''db.internal''), (''user'', Str ''shop''),
                (''password'', Str ''pw'')])"
  "JSON_parse sample_rt body_x = Some (Obj [(''items'', Arr [Obj [(''productId'', Str ''x'')]])])"
  "JSON_parse sample_rt body_x_null =
     Some (Obj [(''items'', Arr [Obj [(''productId'', Str ''x'')], Null])])"
  "JSON_parse sample_rt body_A_qty =
     Some (Obj [(''items'',
                 Arr [Obj [(''productId'', Str ''A''),
                           (''quantity'', Obj [(''toString'', Num (Some 0))])]])])"
  "JSON_parse sample_rt secret_port =
     Some (Obj [(''host'', Str ''db.internal''), (''username'', Str ''shop''),
                (''password'', Str ''pw''), (''port'', Obj [(''toString'', Num (Some 0))])])"
  by (simp_all add: sample_rt_def sample_parse_def body_null_def body_not_json_def
        body_empty_cart_def body_A_def body_ABA_def body_AxB_def secret_username_def
        secret_user_def body_x_def body_x_null_def body_A_qty_def secret_port_def)

lemma sample_rt_simps:
  "num_lit sample_rt i = Some i"
  "num_NaN sample_rt = None"
  "num_add sample_rt (Some x) (Some y) = Some (x + y)"
  "num_mul sample_rt (Some x) (Some y) = Some (x * y)"
  "num_falsy sample_rt n = (n = None \<or> n = Some 0)"
  "num_same sample_rt a c = (a = c)"
  "ObjectToNumber sample_rt (Obj [(''toString'', v)]) = Inl TypeError"
  by (simp_all add: sample_rt_def sample_add_def sample_mul_def sample_object_number_def)

lemma sample_bodies_nonempty:
  "body_null \<noteq> []" "body_not_json \<noteq> []" "body_empty_cart \<noteq> []" "body_A \<noteq> []"
  "body_ABA \<noteq> []" "body_AxB \<noteq> []" "body_x \<noteq> []" "body_x_null \<noteq> []"
  "body_A_qty \<noteq> []"
  by (simp_all add: body_null_def body_not_json_def body_empty_cart_def body_A_def
        body_ABA_def body_AxB_def body_x_def body_x_null_def body_A_qty_def)

lemma sample_carts_nonempty: "cart_A \<noteq> []" "cart_ABA \<noteq> []" "cart_AxB \<noteq> []"
  by (simp_all add: cart_A_def cart_ABA_def cart_AxB_def)

lemma sample_getDbConfig:
  "getDbConfig sample_rt sample_sys fresh =
     (Inr sample_cfg, fresh\<lparr>cachedConfig := Some sample_cfg\<rparr>,
      [(GetSecretValue ''arn:sample'', Returned)])"
proof -
  have "env sample_sys ''DB_SECRET_ARN'' = Some ''arn:sample''"
    and "getSecretValue sample_sys ''arn:sample''
           = Inr \<lparr>SecretString = Some secret_username, SecretBinary = None\<rparr>"
    and "cachedConfig fresh = None"
    by (simp_all add: sample_sys_def fresh_def)
  moreover have "secret_username \<noteq> []"
    by (simp add: secret_username_def)
  ultimately show ?thesis
    by (simp add: getDbConfig_def sample_parse_simps sample_rt_simps get_prop_def nullish_def
          js_or_def sample_cfg_def Let_def)
qed

lemma sample_getPool_fresh:
  "getPool sample_rt sample_sys fresh =
     (Inr sample_pool, warm,
      [(GetSecretValue ''arn:sample'', Returned), (CreatePool sample_pool, Returned)])"
proof -
  have opts: "\<lparr>host = host sample_cfg, user = user sample_cfg, password = password sample_cfg,
          database = database sample_cfg, port = port sample_cfg, waitForConnections = True,
          connectionLimit = Some 5, queueLimit = Some 0\<rparr> = sample_pool"
    by (simp add: sample_cfg_def sample_pool_def)
  have st: "fresh\<lparr>cachedConfig := Some sample_cfg, pool := Some sample_pool\<rparr> = warm"
    by (simp add: fresh_def warm_def)
  have "createPool sample_sys sample_pool = Inr ()" and "pool fresh = None"
    by (simp_all add: sample_sys_def fresh_def)
  then show ?thesis
    by (simp add: getPool_def sample_getDbConfig sample_rt_simps opts st)
qed

lemma sample_getPool_warm: "getPool sample_rt sample_sys warm = (Inr sample_pool, warm, [])"
  by (simp add: getPool_def warm_def)

lemma sample_getPool_insert_down:
  "getPool sample_rt sys_insert_down warm = (Inr sample_pool, warm, [])"
  by (simp add: getPool_def warm_def)

lemma sample_no_arn:
  "getPool sample_rt sys_no_arn fresh =
     (Inl (Error ''Missing DB_SECRET_ARN env var''), fresh, [])"
  "isl (fst (getPool_build sample_rt sys_no_arn fresh)) = False"
  "query_prices sys_no_arn = query_prices sample_sys"
  "query_insert sys_no_arn t = Inr 1"
  by (simp_all add: getPool_def getDbConfig_def getPool_build_def process_env_def
        sys_no_arn_def sample_sys_def fresh_def Let_def)

lemma sample_build_fresh:
  "\<exists>p st1. getPool_build sample_rt sample_sys fresh = (Inr p, st1, [(CreatePool p, Returned)])"
  by (simp add: getPool_build_def process_env_def sample_sys_def fresh_def Let_def)

lemma sample_ids:
  "map (\<lambda>i. js_get i ''productId'') cart_ABA = [Str ''A'', Str ''B'', Str ''A'']"
  "map (\<lambda>i. js_get i ''productId'') cart_AxB = [Str ''A'', Str ''x'', Str ''B'']"
  "map (\<lambda>i. js_get i ''productId'') cart_A = [Str ''A'']"
  by (simp_all add: cart_ABA_def cart_AxB_def cart_A_def)

lemma sample_map_prop:
  "map_prop ''productId'' cart_ABA = Inr [Str ''A'', Str ''B'', Str ''A'']"
  "map_prop ''productId'' cart_AxB = Inr [Str ''A'', Str ''x'', Str ''B'']"
  "map_prop ''productId'' cart_A = Inr [Str ''A'']"
  by (simp_all add: cart_ABA_def cart_AxB_def cart_A_def get_prop_def nullish_def)


lemma sample_query_prices:
  "query_prices sample_sys [Str ''A'', Str ''B'', Str ''A''] = Inr sample_catalog"
  "query_prices sample_sys [Str ''A'', Str ''x'', Str ''B''] = Inr sample_catalog"
  "query_prices sample_sys [Str ''A''] = Inr [\<lparr>row_id = Str ''A'', row_price = Num (Some 10)\<rparr>]"
  "query_prices sys_insert_down = query_prices sample_sys"
  by (simp_all add: sample_sys_def sample_catalog_def sys_insert_down_def)

lemma sample_price_entries:
  "price_entries sample_rt sample_catalog = Inr [(Str ''A'', Some 10), (Str ''B'', Some 3)]"
  "price_entries sample_rt [\<lparr>row_id = Str ''A'', row_price = Num (Some 10)\<rparr>]
     = Inr [(Str ''A'', Some 10)]"
  "price_entries sample_rt [] = Inr []"
  by (simp_all add: sample_catalog_def)



lemma sample_total_loop:
  "total_loop sample_rt [(Str ''A'', Some 10), (Str ''B'', Some 3)] cart_ABA (Some 0)
     = Inr (Completed (Some 33))"
  "total_loop sample_rt [(Str ''A'', Some 10), (Str ''B'', Some 3)] cart_AxB (Some 0) =
   Inr (Return (response sample_rt 400
          (Obj [(''error'', Str ''PRODUCT_NOT_FOUND''), (''productId'', Str ''x'')])))"
  "total_loop sample_rt [(Str ''A'', Some 10)] cart_A (Some 0) = Inr (Completed (Some 10))"
  by (simp_all add: cart_ABA_def cart_AxB_def cart_A_def get_prop_def
        nullish_def Map_get_def sample_rt_simps)

lemmas sample_eval =
  createOrder_def get_prop_def nullish_def Array_isArray_def elements_def
  sample_parse_simps sample_bodies_nonempty sample_carts_nonempty sample_getPool_warm
  sample_getPool_fresh sample_map_prop sample_query_prices sample_price_entries
  sample_total_loop sample_rt_simps

lemma sample_order_ABA:
  "createOrder sample_rt sample_sys \<lparr>event_body = Some body_ABA\<rparr> warm =
     (response sample_rt 201 (Obj [(''status'', Str ''ok''), (''total'', Num (Some 33))]),
      warm,
      [(QueryPrices [Str ''A'', Str ''B'', Str ''A''], Returned),
       (InsertOrder (Some 33), Returned)])"
  by (simp add: sample_eval) (simp add: sample_sys_def)

lemma sample_order_AxB:
  "createOrder sample_rt sample_sys \<lparr>event_body = Some body_AxB\<rparr> warm =
     (response sample_rt 400
        (Obj [(''error'', Str ''PRODUCT_NOT_FOUND''), (''productId'', Str ''x'')]),
      warm,
      [(QueryPrices [Str ''A'', Str ''x'', Str ''B''], Returned)])"
  by (simp add: sample_eval)

lemma sample_order_insert_down:
  "createOrder sample_rt sys_insert_down \<lparr>event_body = Some body_ABA\<rparr> warm =
     (db_error sample_rt, warm,
      [(QueryPrices [Str ''A'', Str ''B'', Str ''A''], Returned),
       (InsertOrder (Some 33), Threw)])"
  by (simp add: sample_eval sample_getPool_insert_down db_error_def)
     (simp add: sys_insert_down_def)

text \<open>The bodies the sample serialiser writes.\<close>

lemma sample_body_201:
  \<open>body (response sample_rt 201 (Obj [(''status'', Str ''ok''), (''total'', Num (Some 33))]))
     = ''{"status":"ok","total":33}''\<close>
  by (simp add: sample_rt_def quoted_def sample_digits.simps)

lemma sample_body_400:
  \<open>body (response sample_rt 400
      (Obj [(''error'', Str ''PRODUCT_NOT_FOUND''), (''productId'', Str ''x'')]))
     = ''{"error":"PRODUCT_NOT_FOUND","productId":"x"}''\<close>
  by (simp add: sample_rt_def quoted_def)

subsection \<open>The order total\<close>



subsection \<open>The validations\<close>

lemma createOrder_empty_body:
  "event_body ev = None \<or> event_body ev = Some [] \<Longrightarrow>
   createOrder rt sys ev st = (response rt 400 (Obj [(''error'', Str ''EMPTY_BODY'')]), st, [])"
  by (simp add: createOrder_def)

lemma createOrder_invalid_json:
  "event_body ev = Some b \<Longrightarrow> b \<noteq> [] \<Longrightarrow> JSON_parse rt b = None \<Longrightarrow>
   createOrder rt sys ev st = (response rt 400 (Obj [(''error'', Str ''INVALID_JSON'')]), st, [])"
  by (simp add: createOrder_def)

lemma createOrder_empty_cart:
  "event_body ev = Some b \<Longrightarrow> b \<noteq> [] \<Longrightarrow> JSON_parse rt b = Some payload \<Longrightarrow>
   \<not> nullish payload \<Longrightarrow>
   \<not> Array_isArray (js_get payload ''items'') \<or> elements (js_get payload ''items'') = [] \<Longrightarrow>
   createOrder rt sys ev st = (response rt 400 (Obj [(''error'', Str ''EMPTY_CART'')]), st, [])"
  by (auto simp: createOrder_def get_prop_def)

text \<open>The examples of the specification for the three validations.\<close>

lemma sample_validation_examples:
  "fst (createOrder sample_rt sample_sys \<lparr>event_body = None\<rparr> warm)
     = response sample_rt 400 (Obj [(''error'', Str ''EMPTY_BODY'')])"
  "fst (createOrder sample_rt sample_sys \<lparr>event_body = Some []\<rparr> warm)
     = response sample_rt 400 (Obj [(''error'', Str ''EMPTY_BODY'')])"
  "fst (createOrder sample_rt sample_sys \<lparr>event_body = Some body_not_json\<rparr> warm)
     = response sample_rt 400 (Obj [(''error'', Str ''INVALID_JSON'')])"
  "fst (createOrder sample_rt sample_sys \<lparr>event_body = Some body_empty_cart\<rparr> warm)
     = response sample_rt 400 (Obj [(''error'', Str ''EMPTY_CART'')])"
  by (simp_all add: createOrder_empty_body
        createOrder_invalid_json [OF _ sample_bodies_nonempty(2) sample_parse_simps(2)]
        createOrder_empty_cart [OF _ sample_bodies_nonempty(3) sample_parse_simps(3)]
        nullish_def elements_def)

text \<open>
  Claim C2.  The validations run in order and each ends the invocation (the three lemmas
  above: \<^verbatim>\<open>EMPTY_BODY\<close>, then \<^verbatim>\<open>INVALID_JSON\<close>, then \<^verbatim>\<open>EMPTY_CART\<close> for a
  payload other than \<^verbatim>\<open>null\<close>).  A body that parses to \<^verbatim>\<open>null\<close> is the case they
  leave: reading \<^verbatim>\<open>payload.items\<close> throws, the outer \<^verbatim>\<open>catch\<close> answers
  \<^verbatim>\<open>500 {error: "DB_ERROR"}\<close>, and no collaborator has been called.
\<close>

theorem createOrder_null_payload:
  "event_body ev = Some b \<Longrightarrow> b \<noteq> [] \<Longrightarrow> JSON_parse rt b = Some Null \<Longrightarrow>
   createOrder rt sys ev st = (response rt 500 (Obj [(''error'', Str ''DB_ERROR'')]), st, [])"
  by (simp add: createOrder_def get_prop_def nullish_def)

theorem createOrder_null_payload_witness:
  "createOrder sample_rt sample_sys \<lparr>event_body = Some ''null''\<rparr> fresh =
     (response sample_rt 500 (Obj [(''error'', Str ''DB_ERROR'')]), fresh, [])"
  using createOrder_null_payload [of "\<lparr>event_body = Some ''null''\<rparr>" "''null''" sample_rt
      sample_sys fresh] sample_parse_simps(1)
  by (simp add: body_null_def)

subsection \<open>A product that the catalog does not have\<close>

text \<open>
  In a cart without \<^verbatim>\<open>null\<close> items, whose quantities resolve up to and including the
  first item \<open>bad\<close> without a catalog price: \<^verbatim>\<open>400 {error: "PRODUCT_NOT_FOUND"}\<close> with
  the \<^verbatim>\<open>productId\<close> of \<open>bad\<close>, and no order written.  The loop leaves at \<open>bad\<close>
  whatever follows it.
\<close>

lemma createOrder_product_not_found:
  assumes "event_body ev = Some b" and "b \<noteq> []"
    and "JSON_parse rt b = Some payload"
    and "get_prop payload ''items'' = Inr (Arr (pre @ bad # post))"
    and "getPool rt sys st = (Inr p, st1, cs)"
    and "list_all (\<lambda>i. \<not> nullish i) (pre @ bad # post)"
    and "query_prices sys (map (\<lambda>i. js_get i ''productId'') (pre @ bad # post)) = Inr products"
    and "price_entries rt products = Inr pm"
    and "list_all (\<lambda>i. \<not> isl (spec_quantity rt i)
                      \<and> Map_get rt pm (js_get i ''productId'') \<noteq> None) pre"
    and "\<not> isl (spec_quantity rt bad)"
    and "Map_get rt pm (js_get bad ''productId'') = None"
  shows "createOrder rt sys ev st =
           (response rt 400
              (Obj [(''error'', Str ''PRODUCT_NOT_FOUND''),
                    (''productId'', js_get bad ''productId'')]),
            st1,
            cs @ [(QueryPrices (map (\<lambda>i. js_get i ''productId'') (pre @ bad # post)), Returned)])"
proof -
  have pre: "list_all (\<lambda>i. \<not> nullish i \<and> \<not> isl (spec_quantity rt i)
                        \<and> Map_get rt pm (js_get i ''productId'') \<noteq> None) pre"
    using assms(6,9) by (simp add: list_all_iff)
  have "\<not> nullish bad"
    using assms(6) by simp
  then have loop: "total_loop rt pm (pre @ bad # post) (num_lit rt 0) =
      Inr (Return (response rt 400
             (Obj [(''error'', Str ''PRODUCT_NOT_FOUND''),
                   (''productId'', js_get bad ''productId'')])))"
    using pre assms(10,11) by (simp add: total_loop_missing)
  show ?thesis
    using assms(1-5,7,8) loop map_prop_ok [OF assms(6), of "''productId''"]
    by (simp add: createOrder_def Array_isArray_def elements_def Let_def)
qed

text \<open>
  Claim C3.  An item after the first missing one can decide the answer: when it is
  \<^verbatim>\<open>null\<close>, \<^verbatim>\<open>items.map(i => i.productId)\<close> of line 115 throws before the lookup and
  the \<^verbatim>\<open>catch\<close> answers \<^verbatim>\<open>500 {error: "DB_ERROR"}\<close>, whatever precedes it.
\<close>

theorem createOrder_null_after_missing:
  assumes "event_body ev = Some b" and "b \<noteq> []"
    and "JSON_parse rt b = Some payload"
    and "get_prop payload ''items'' = Inr (Arr (pre @ bad # post))"
    and "Null \<in> set post"
    and "getPool rt sys st = (Inr p, st1, cs)"
  shows "createOrder rt sys ev st =
           (response rt 500 (Obj [(''error'', Str ''DB_ERROR'')]), st1, cs)"
proof -
  have "Null \<in> set (pre @ bad # post)"
    using assms(5) by simp
  from createOrder_null_item [OF assms(1-4) this assms(6)]
  show ?thesis
    by (simp add: db_error_def)
qed

text \<open>
  The cart \<^verbatim>\<open>[{productId: "x"}]\<close>, where the catalog has no \<^verbatim>\<open>x\<close>, is answered with
  \<^verbatim>\<open>PRODUCT_NOT_FOUND\<close>; the cart \<^verbatim>\<open>[{productId: "x"}, null]\<close> with \<^verbatim>\<open>500\<close>.
\<close>

theorem createOrder_null_after_missing_witness:
  "createOrder sample_rt sample_sys \<lparr>event_body = Some body_x\<rparr> warm =
     (response sample_rt 400
        (Obj [(''error'', Str ''PRODUCT_NOT_FOUND''), (''productId'', Str ''x'')]),
      warm, [(QueryPrices [Str ''x''], Returned)])
   \<and> createOrder sample_rt sample_sys \<lparr>event_body = Some body_x_null\<rparr> warm =
     (response sample_rt 500 (Obj [(''error'', Str ''DB_ERROR'')]), warm, [])"
proof -
  let ?x = "Obj [(''productId'', Str ''x'')] :: snum jsval"
  have "query_prices sample_sys [Str ''x''] = Inr []"
    by (simp add: sample_sys_def sample_catalog_def)
  then have "createOrder sample_rt sample_sys \<lparr>event_body = Some body_x\<rparr> warm =
     (response sample_rt 400
        (Obj [(''error'', Str ''PRODUCT_NOT_FOUND''), (''productId'', Str ''x'')]),
      warm, [(QueryPrices [Str ''x''], Returned)])"
    by (simp add: createOrder_def get_prop_def nullish_def Array_isArray_def elements_def
          sample_parse_simps sample_bodies_nonempty sample_getPool_warm Map_get_def)
  moreover have "get_prop (Obj [(''items'', Arr [?x, Null])]) ''items''
                   = Inr (Arr ([] @ ?x # [Null]))"
    by (simp add: get_prop_def nullish_def)
  from createOrder_null_after_missing [where ev = "\<lparr>event_body = Some body_x_null\<rparr>"
      and b = body_x_null and rt = sample_rt, OF _ sample_bodies_nonempty(8)
      sample_parse_simps(10) this _ sample_getPool_warm]
  have "createOrder sample_rt sample_sys \<lparr>event_body = Some body_x_null\<rparr> warm =
     (response sample_rt 500 (Obj [(''error'', Str ''DB_ERROR'')]), warm, [])"
    by simp
  ultimately show ?thesis by simp
qed

subsection \<open>The quantity of an item\<close>

text \<open>
  Claim C4.  The quantity of a cart item is \<^verbatim>\<open>1\<close> when its \<^verbatim>\<open>quantity\<close> is absent,
  \<^verbatim>\<open>null\<close>, \<^verbatim>\<open>false\<close>, a false number (\<^verbatim>\<open>0\<close>, \<^verbatim>\<open>NaN\<close>) or the empty string, and
  otherwise \<^verbatim>\<open>Number(quantity)\<close>, with no check of sign or integrality: a true number
  is taken as it is.  That quantity is what the loop multiplies the price with for every
  item, and a cart of one item totals \<^verbatim>\<open>0 + price * quantity\<close>.  Where
  \<^verbatim>\<open>Number(quantity)\<close> throws (an array or object can make it), there is no quantity:
  the loop throws at that item and the answer is \<^verbatim>\<open>500\<close>.
\<close>

theorem createOrder_quantity:
  assumes "event_body ev = Some b" and "b \<noteq> []"
    and "JSON_parse rt b = Some payload"
    and "get_prop payload ''items'' = Inr (Arr [item])"
    and "\<not> nullish item"
    and "getPool rt sys st = (Inr p, st1, cs)"
    and "query_prices sys [js_get item ''productId''] = Inr products"
    and "catalog_price rt products (js_get item ''productId'') = Some price"
    and "qr =
          (case js_get item ''quantity'' of
             Undefined \<Rightarrow> Inr (num_lit rt 1)
           | Null \<Rightarrow> Inr (num_lit rt 1)
           | Bool q \<Rightarrow> Inr (num_lit rt 1)
           | Num n \<Rightarrow> Inr (if num_falsy rt n then num_lit rt 1 else n)
           | Str s \<Rightarrow> Inr (if s = [] then num_lit rt 1 else StringToNumber rt s)
           | Arr xs \<Rightarrow> ObjectToNumber rt (Arr xs)
           | Obj kvs \<Rightarrow> ObjectToNumber rt (Obj kvs))"
  shows "(\<forall>qty insertId.
            qr = Inr qty
            \<and> query_insert sys (num_add rt (num_lit rt 0) (num_mul rt price qty)) = Inr insertId \<longrightarrow>
            createOrder rt sys ev st =
              (response rt 201
                 (Obj [(''status'', Str ''ok''),
                       (''total'', Num (num_add rt (num_lit rt 0) (num_mul rt price qty)))]),
               st1,
               cs @ [(QueryPrices [js_get item ''productId''], Returned),
                     (InsertOrder (num_add rt (num_lit rt 0) (num_mul rt price qty)),
                      Returned)]))
       \<and> (\<forall>e. qr = Inl e \<longrightarrow>
              createOrder rt sys ev st =
                (response rt 500 (Obj [(''error'', Str ''DB_ERROR'')]), st1,
                 cs @ [(QueryPrices [js_get item ''productId''], Returned)]))
       \<and> (\<forall>pm price' rest t qty.
              qr = Inr qty \<and> Map_get rt pm (js_get item ''productId'') = Some price' \<longrightarrow>
              total_loop rt pm (item # rest) t =
                total_loop rt pm rest (num_add rt t (num_mul rt price' qty)))
       \<and> (\<forall>pm rest t e. qr = Inl e \<longrightarrow> total_loop rt pm (item # rest) t = Inl e)"
proof -
  have qr: "spec_quantity rt item = qr"
    unfolding assms(9) spec_quantity_eq
    by (cases "js_get item ''quantity''") simp_all
  obtain pm where pm: "price_entries rt products = Inr pm"
    and price: "Map_get rt pm (js_get item ''productId'') = Some price"
    using assms(8) by (cases "price_entries rt products") (auto simp: catalog_price_def)
  have step: "total_loop rt m (item # rest) t =
      total_loop rt m rest (num_add rt t (num_mul rt price' qty))"
    if "qr = Inr qty" and "Map_get rt m (js_get item ''productId'') = Some price'"
    for m price' rest t qty
    using that total_loop_step [OF assms(5), of rt qty m rest t] qr by simp
  have throws: "total_loop rt m (item # rest) t = Inl e" if "qr = Inl e" for m rest t e
    using that total_loop_throws [OF assms(5), of rt e m rest t] qr by simp
  have ok: "createOrder rt sys ev st =
              (response rt 201
                 (Obj [(''status'', Str ''ok''),
                       (''total'', Num (num_add rt (num_lit rt 0) (num_mul rt price qty)))]),
               st1,
               cs @ [(QueryPrices [js_get item ''productId''], Returned),
                     (InsertOrder (num_add rt (num_lit rt 0) (num_mul rt price qty)),
                      Returned)])"
    if "qr = Inr qty"
      and "query_insert sys (num_add rt (num_lit rt 0) (num_mul rt price qty)) = Inr insertId"
    for qty insertId
  proof -
    have "total_loop rt pm [item] (num_lit rt 0)
            = Inr (Completed (num_add rt (num_lit rt 0) (num_mul rt price qty)))"
      unfolding step [OF that(1) price] by simp
    then show ?thesis
      using assms(1-7) pm that(2)
      by (simp add: createOrder_def Array_isArray_def elements_def get_prop_def Let_def)
  qed
  have bad: "createOrder rt sys ev st =
                (response rt 500 (Obj [(''error'', Str ''DB_ERROR'')]), st1,
                 cs @ [(QueryPrices [js_get item ''productId''], Returned)])"
    if "qr = Inl e" for e
  proof -
    have "total_loop rt pm [item] (num_lit rt 0) = Inl e"
      using that by (rule throws)
    then show ?thesis
      using assms(1-7) pm
      by (simp add: createOrder_def Array_isArray_def elements_def get_prop_def Let_def)
  qed
  show ?thesis
    using ok bad step throws by blast
qed

text \<open>
  The cart \<^verbatim>\<open>[{productId: "A"}]\<close> at \<^verbatim>\<open>price(A) = 10\<close> totals \<^verbatim>\<open>10\<close>; with the
  quantity \<^verbatim>\<open>{"toString": 0}\<close> the answer is \<^verbatim>\<open>500\<close>.
\<close>

theorem createOrder_quantity_witness:
  "createOrder sample_rt sample_sys \<lparr>event_body = Some body_A\<rparr> warm =
     (response sample_rt 201 (Obj [(''status'', Str ''ok''), (''total'', Num (Some 10))]),
      warm,
      [(QueryPrices [Str ''A''], Returned), (InsertOrder (Some 10), Returned)])
   \<and> createOrder sample_rt sample_sys \<lparr>event_body = Some body_A_qty\<rparr> warm =
     (response sample_rt 500 (Obj [(''error'', Str ''DB_ERROR'')]), warm,
      [(QueryPrices [Str ''A''], Returned)])"
proof -
  let ?item = "Obj [(''productId'', Str ''A'')] :: snum jsval"
  let ?item' = "Obj [(''productId'', Str ''A''),
                     (''quantity'', Obj [(''toString'', Num (Some 0))])] :: snum jsval"
  let ?row = "[\<lparr>row_id = Str ''A'', row_price = Num (Some 10)\<rparr>] :: snum product_row list"
  have price: "catalog_price sample_rt ?row (Str ''A'') = Some (Some 10)"
    by (simp add: catalog_price_def Map_get_def)
  have "get_prop (Obj [(''items'', Arr cart_A)]) ''items'' = Inr (Arr [?item])"
    and "\<not> nullish ?item"
    and "query_prices sample_sys [js_get ?item ''productId''] = Inr ?row"
    and "catalog_price sample_rt ?row (js_get ?item ''productId'') = Some (Some 10)"
    by (simp_all add: get_prop_def nullish_def cart_A_def sample_query_prices price)
  from createOrder_quantity [where ev = "\<lparr>event_body = Some body_A\<rparr>" and b = body_A
      and rt = sample_rt and qr = "Inr (Some 1)",
      OF _ sample_bodies_nonempty(4) sample_parse_simps(4) this(1,2) sample_getPool_warm
      this(3,4)]
  have one: "createOrder sample_rt sample_sys \<lparr>event_body = Some body_A\<rparr> warm =
     (response sample_rt 201 (Obj [(''status'', Str ''ok''), (''total'', Num (Some 10))]),
      warm,
      [(QueryPrices [Str ''A''], Returned), (InsertOrder (Some 10), Returned)])"
    by (simp add: sample_rt_simps sample_sys_def)
  have "get_prop (Obj [(''items'', Arr [?item'])]) ''items'' = Inr (Arr [?item'])"
    and "\<not> nullish ?item'"
    and "query_prices sample_sys [js_get ?item' ''productId''] = Inr ?row"
    and "catalog_price sample_rt ?row (js_get ?item' ''productId'') = Some (Some 10)"
    by (simp_all add: get_prop_def nullish_def sample_query_prices price)
  from createOrder_quantity [where ev = "\<lparr>event_body = Some body_A_qty\<rparr>"
      and b = body_A_qty and rt = sample_rt and qr = "Inl TypeError",
      OF _ sample_bodies_nonempty(9) sample_parse_simps(11) this(1,2) sample_getPool_warm
      this(3,4)]
  have two: "createOrder sample_rt sample_sys \<lparr>event_body = Some body_A_qty\<rparr> warm =
     (response sample_rt 500 (Obj [(''error'', Str ''DB_ERROR'')]), warm,
      [(QueryPrices [Str ''A''], Returned)])"
    by (simp add: sample_rt_simps)
  from one two show ?thesis by simp
qed

subsection \<open>The calls of an invocation\<close>

text \<open>
  Claim C5.  In every invocation of \<open>createOrder\<close>: the catalog lookup is issued at
  most once; when one of the validations of steps 1 to 3 fails no call at all is issued;
  an invocation that answers \<^verbatim>\<open>201\<close> has issued exactly one order-store write, with
  the total that the envelope reports; an invocation that answers \<^verbatim>\<open>400\<close> (any
  validation failure, \<^verbatim>\<open>PRODUCT_NOT_FOUND\<close> included) has issued no write.
\<close>

theorem createOrder_effects:
  assumes "createOrder rt sys ev st = (r, st', tr)"
  shows "length (filter is_lookup tr) \<le> 1
    \<and> (steps_1_3_fail rt ev \<longrightarrow> tr = [] \<and> statusCode r = 400)
    \<and> (statusCode r = 201 \<longrightarrow>
         (\<exists>t. filter is_write tr = [(InsertOrder t, Returned)]
              \<and> r = response rt 201 (Obj [(''status'', Str ''ok''), (''total'', Num t)])))
    \<and> (statusCode r = 400 \<longrightarrow> filter is_write tr = [])"
  using assms
  by (auto simp: createOrder_def steps_1_3_fail_def Let_def
        split: option.splits if_splits sum.splits prod.splits loop_result.splits
        dest: getPool_trace total_loop_Return)

theorem createOrder_effects_witness:
  "length (filter is_lookup
      (snd (snd (createOrder sample_rt sample_sys \<lparr>event_body = Some body_ABA\<rparr> warm)))) \<le> 1
   \<and> (\<exists>t. filter is_write
             (snd (snd (createOrder sample_rt sample_sys \<lparr>event_body = Some body_ABA\<rparr> warm)))
           = [(InsertOrder t, Returned)]
         \<and> fst (createOrder sample_rt sample_sys \<lparr>event_body = Some body_ABA\<rparr> warm)
           = response sample_rt 201 (Obj [(''status'', Str ''ok''), (''total'', Num t)]))"
  using createOrder_effects [OF sample_order_ABA]
  by (simp add: sample_order_ABA)

text \<open>
  Claim C6, as stated, fails: what is sent is not deduplicated.  For the cart
  \<^verbatim>\<open>[A, B, A]\<close> the lookup carries \<^verbatim>\<open>A\<close> twice.
\<close>

theorem createOrder_lookup_ids_counterexample:
  "(QueryPrices [Str ''A'', Str ''B'', Str ''A''], Returned)
     \<in> set (snd (snd (createOrder sample_rt sample_sys \<lparr>event_body = Some body_ABA\<rparr> warm)))
   \<and> map (\<lambda>i. js_get i ''productId'') cart_ABA = [Str ''A'', Str ''B'', Str ''A'']
   \<and> \<not> distinct [Str ''A'', Str ''B'', Str ''A'' :: snum jsval]"
  by (simp add: sample_order_ABA sample_ids)

text \<open>
  Claim C6, amended.  When steps 1 to 3 pass, every catalog lookup that
  \<open>createOrder\<close> issues carries the list \<^verbatim>\<open>items.map(i => i.productId)\<close>: the
  \<^verbatim>\<open>productId\<close> of every item, in input order, once per occurrence.  The set of
  identifiers sent is therefore the set of the \<^verbatim>\<open>productId\<close> values of the cart
  items.  The lookup is issued whenever the pool is obtained and no item is \<^verbatim>\<open>null\<close>.
\<close>

theorem createOrder_lookup_ids:
  assumes "event_body ev = Some b" and "b \<noteq> []"
    and "JSON_parse rt b = Some payload"
    and "get_prop payload ''items'' = Inr (Arr its)" and "its \<noteq> []"
    and "createOrder rt sys ev st = (r, st', tr)"
  shows "(\<forall>ids oc. (QueryPrices ids, oc) \<in> set tr \<longrightarrow>
            ids = map (\<lambda>i. js_get i ''productId'') its
            \<and> set ids = (\<lambda>i. js_get i ''productId'') ` set its)
       \<and> ((\<exists>p st1 cs. getPool rt sys st = (Inr p, st1, cs)) \<and> list_all (\<lambda>i. \<not> nullish i) its \<longrightarrow>
            (\<exists>oc. (QueryPrices (map (\<lambda>i. js_get i ''productId'') its), oc) \<in> set tr))"
proof (intro conjI allI impI)
  fix ids oc
  assume "(QueryPrices ids, oc) \<in> set tr"
  then show "ids = map (\<lambda>i. js_get i ''productId'') its"
    using assms
    by (auto simp: createOrder_def Array_isArray_def elements_def Let_def
          split: sum.splits prod.splits loop_result.splits
          dest: getPool_no_query map_prop_Inr)
  then show "set ids = (\<lambda>i. js_get i ''productId'') ` set its"
    by simp
next
  assume "(\<exists>p st1 cs. getPool rt sys st = (Inr p, st1, cs)) \<and> list_all (\<lambda>i. \<not> nullish i) its"
  then obtain p st1 cs where "getPool rt sys st = (Inr p, st1, cs)"
    and "map_prop ''productId'' its = Inr (map (\<lambda>i. js_get i ''productId'') its)"
    by (auto simp: map_prop_ok)
  then show "\<exists>oc. (QueryPrices (map (\<lambda>i. js_get i ''productId'') its), oc) \<in> set tr"
    using assms
    by (auto simp: createOrder_def Array_isArray_def elements_def Let_def
          split: sum.splits loop_result.splits)
qed

theorem createOrder_lookup_ids_witness:
  "(QueryPrices [Str ''A'', Str ''B'', Str ''A''], Returned)
     \<in> set (snd (snd (createOrder sample_rt sample_sys \<lparr>event_body = Some body_ABA\<rparr> warm)))
   \<and> set [Str ''A'', Str ''B'', Str ''A''] = (\<lambda>i. js_get i ''productId'') ` set cart_ABA"
proof -
  have "get_prop (Obj [(''items'', Arr cart_ABA)]) ''items'' = Inr (Arr cart_ABA)"
    by (simp add: get_prop_def nullish_def)
  from createOrder_lookup_ids [where ev = "\<lparr>event_body = Some body_ABA\<rparr>"
      and b = body_ABA and rt = sample_rt, OF _ sample_bodies_nonempty(5) sample_parse_simps(5)
      this sample_carts_nonempty(2) sample_order_ABA]
  show ?thesis
    by (simp add: sample_order_ABA sample_ids)
qed

subsection \<open>Failing collaborators\<close>

text \<open>
  Claim C7.  An invocation of \<open>createOrder\<close> or \<open>getProducts\<close> in which a call to
  a collaborator throws answers the one envelope \<open>db_error\<close>, that is
  \<^verbatim>\<open>500 {error: "DB_ERROR"}\<close>, whatever was thrown.
\<close>

theorem collaborator_failure_db_error:
  "(createOrder rt sys ev st = (r, st', tr) \<and> (c, Threw) \<in> set tr \<longrightarrow> r = db_error rt)
   \<and> (getProducts rt sys st = (r', st'', tr') \<and> (c', Threw) \<in> set tr' \<longrightarrow> r' = db_error rt)"
proof (intro conjI impI)
  assume "createOrder rt sys ev st = (r, st', tr) \<and> (c, Threw) \<in> set tr"
  then show "r = db_error rt"
    by (auto simp: createOrder_def db_error_def Let_def
          split: option.splits if_splits sum.splits prod.splits loop_result.splits
          dest: getPool_trace)
next
  assume "getProducts rt sys st = (r', st'', tr') \<and> (c', Threw) \<in> set tr'"
  then show "r' = db_error rt"
    by (auto simp: getProducts_def db_error_def
          split: sum.splits prod.splits dest: getPool_trace)
qed

text \<open>The order store fails on the write of the cart \<^verbatim>\<open>[A x 2, B x 1, A]\<close>.\<close>

theorem collaborator_failure_db_error_witness:
  "fst (createOrder sample_rt sys_insert_down \<lparr>event_body = Some body_ABA\<rparr> warm)
     = response sample_rt 500 (Obj [(''error'', Str ''DB_ERROR'')])
   \<and> (InsertOrder (Some 33), Threw)
       \<in> set (snd (snd (createOrder sample_rt sys_insert_down \<lparr>event_body = Some body_ABA\<rparr> warm)))"
  using collaborator_failure_db_error [of sample_rt sys_insert_down
      "\<lparr>event_body = Some body_ABA\<rparr>" warm "db_error sample_rt" warm
      "[(QueryPrices [Str ''A'', Str ''B'', Str ''A''], Returned),
        (InsertOrder (Some 33), Threw)]" "InsertOrder (Some 33)"]
  by (simp add: sample_order_insert_down db_error_def)

subsection \<open>Configuration\<close>

text \<open>
  Claim C8, as stated, fails: a secret that names the user under the key \<^verbatim>\<open>user\<close>
  supplies host, user and password, and \<open>getDbConfig\<close> throws on it, since it reads
  \<^verbatim>\<open>parsed.username\<close> only.
\<close>

theorem getDbConfig_user_key_counterexample:
  "JSON_parse sample_rt secret_user =
     Some (Obj [(''host'', Str ''db.internal''), (''user'', Str ''shop''),
                (''password'', Str ''pw'')])
   \<and> getDbConfig sample_rt sys_secret_user fresh =
       (Inl (Error ''DB secret missing required fields''), fresh,
        [(GetSecretValue ''arn:sample'', Returned)])"
proof -
  have "env sys_secret_user ''DB_SECRET_ARN'' = Some ''arn:sample''"
    and "getSecretValue sys_secret_user ''arn:sample''
           = Inr \<lparr>SecretString = Some secret_user, SecretBinary = None\<rparr>"
    and "cachedConfig fresh = None"
    by (simp_all add: sys_secret_user_def sample_sys_def fresh_def)
  moreover have "secret_user \<noteq> []"
    by (simp add: secret_user_def)
  ultimately show ?thesis
    by (simp add: getDbConfig_def sample_parse_simps sample_rt_simps get_prop_def nullish_def
          js_or_def Let_def)
qed

text \<open>A port that \<^verbatim>\<open>Number\<close> throws on: line 33 throws before the check of line 35.\<close>

lemma sample_getDbConfig_port:
  "getDbConfig sample_rt sys_secret_port fresh =
     (Inl TypeError, fresh, [(GetSecretValue ''arn:sample'', Returned)])"
proof -
  have "env sys_secret_port ''DB_SECRET_ARN'' = Some ''arn:sample''"
    and "getSecretValue sys_secret_port ''arn:sample''
           = Inr \<lparr>SecretString = Some secret_port, SecretBinary = None\<rparr>"
    and "cachedConfig fresh = None"
    by (simp_all add: sys_secret_port_def sample_sys_def fresh_def)
  moreover have "secret_port \<noteq> []"
    by (simp add: secret_port_def)
  ultimately show ?thesis
    by (simp add: getDbConfig_def sample_parse_simps sample_rt_simps get_prop_def nullish_def
          js_or_def Let_def)
qed

text \<open>
  Claim C8, amended.  With nothing cached, \<^verbatim>\<open>DB_SECRET_ARN\<close> set and a secret string
  that parses, \<open>getDbConfig\<close> succeeds exactly when the parsed secret has true values
  under \<^verbatim>\<open>host\<close>, \<^verbatim>\<open>username\<close> and \<^verbatim>\<open>password\<close> and its \<^verbatim>\<open>port\<close> is absent or
  false or such that \<^verbatim>\<open>Number(port)\<close> does not throw.  Then the database is
  \<^verbatim>\<open>dbname\<close>, else \<^verbatim>\<open>database\<close>, else \<^verbatim>\<open>"storedb"\<close>, the port is
  \<^verbatim>\<open>Number(port)\<close>, or \<^verbatim>\<open>3306\<close> when \<^verbatim>\<open>port\<close> is absent or false, and the
  configuration is cached.  When it fails and no pool exists, \<open>getProducts\<close> answers
  \<^verbatim>\<open>500 {error: "DB_ERROR"}\<close> and \<open>createOrder\<close> never answers \<^verbatim>\<open>201\<close>.
\<close>

theorem getDbConfig_required_fields:
  assumes "cachedConfig st = None"
    and "env sys ''DB_SECRET_ARN'' = Some arn" and "arn \<noteq> []"
    and "getSecretValue sys arn = Inr res"
    and "SecretString res = Some s" and "s \<noteq> []"
    and "JSON_parse rt s = Some parsed"
    and "pr = (if ToBoolean rt (js_get parsed ''port'') then Number rt (js_get parsed ''port'')
               else Inr (num_lit rt 3306))"
  shows "((\<exists>cfg. fst (getDbConfig rt sys st) = Inr cfg) \<longleftrightarrow>
            \<not> nullish parsed \<and> ToBoolean rt (js_get parsed ''host'')
            \<and> ToBoolean rt (js_get parsed ''username'')
            \<and> ToBoolean rt (js_get parsed ''password'')
            \<and> \<not> isl pr)
    \<and> (\<forall>cfg. fst (getDbConfig rt sys st) = Inr cfg \<longrightarrow>
          host cfg = js_get parsed ''host'' \<and> user cfg = js_get parsed ''username''
          \<and> password cfg = js_get parsed ''password''
          \<and> database cfg =
              js_or rt (js_or rt (js_get parsed ''dbname'') (js_get parsed ''database''))
                (Str ''storedb'')
          \<and> (js_get parsed ''dbname'' = Undefined \<and> js_get parsed ''database'' = Undefined
               \<longrightarrow> database cfg = Str ''storedb'')
          \<and> pr = Inr (port cfg)
          \<and> (js_get parsed ''port'' = Undefined \<longrightarrow> port cfg = num_lit rt 3306)
          \<and> cachedConfig (fst (snd (getDbConfig rt sys st))) = Some cfg)
    \<and> (isl (fst (getDbConfig rt sys st)) \<and> pool st = None \<longrightarrow>
          fst (getProducts rt sys st) = db_error rt
          \<and> (\<forall>ev. statusCode (fst (createOrder rt sys ev st)) \<noteq> 201))"
proof (intro conjI)
  note cfg = getDbConfig_parsed [OF assms(1-7), folded assms(8)]
  show "(\<exists>cfg. fst (getDbConfig rt sys st) = Inr cfg) \<longleftrightarrow>
            \<not> nullish parsed \<and> ToBoolean rt (js_get parsed ''host'')
            \<and> ToBoolean rt (js_get parsed ''username'')
            \<and> ToBoolean rt (js_get parsed ''password'')
            \<and> \<not> isl pr"
    by (cases pr) (auto simp: cfg)
  show "\<forall>cfg. fst (getDbConfig rt sys st) = Inr cfg \<longrightarrow>
          host cfg = js_get parsed ''host'' \<and> user cfg = js_get parsed ''username''
          \<and> password cfg = js_get parsed ''password''
          \<and> database cfg =
              js_or rt (js_or rt (js_get parsed ''dbname'') (js_get parsed ''database''))
                (Str ''storedb'')
          \<and> (js_get parsed ''dbname'' = Undefined \<and> js_get parsed ''database'' = Undefined
               \<longrightarrow> database cfg = Str ''storedb'')
          \<and> pr = Inr (port cfg)
          \<and> (js_get parsed ''port'' = Undefined \<longrightarrow> port cfg = num_lit rt 3306)
          \<and> cachedConfig (fst (snd (getDbConfig rt sys st))) = Some cfg"
  proof (cases pr)
    case (Inl e)
    then show ?thesis by (simp add: cfg)
  next
    case (Inr n)
    have "n = num_lit rt 3306" if "js_get parsed ''port'' = Undefined"
      using that Inr assms(8) by simp
    then show ?thesis
      using Inr by (auto simp: cfg js_or_def split: if_splits)
  qed
  show "isl (fst (getDbConfig rt sys st)) \<and> pool st = None \<longrightarrow>
          fst (getProducts rt sys st) = db_error rt
          \<and> (\<forall>ev. statusCode (fst (createOrder rt sys ev st)) \<noteq> 201)"
    using getPool_config_failed getProducts_pool_failed createOrder_pool_failed by blast
qed

theorem getDbConfig_required_fields_witness:
  "\<exists>cfg. fst (getDbConfig sample_rt sample_sys fresh) = Inr cfg
         \<and> user cfg = Str ''shop'' \<and> database cfg = Str ''storedb'' \<and> port cfg = Some 3306"
proof -
  let ?parsed = "Obj [(''host'', Str ''db.internal''), (''username'', Str ''shop''),
                      (''password'', Str ''pw'')] :: snum jsval"
  have "cachedConfig fresh = None"
    and "env sample_sys ''DB_SECRET_ARN'' = Some ''arn:sample''" and "''arn:sample'' \<noteq> []"
    and "getSecretValue sample_sys ''arn:sample''
           = Inr \<lparr>SecretString = Some secret_username, SecretBinary = None\<rparr>"
    and "SecretString \<lparr>SecretString = Some secret_username, SecretBinary = None\<rparr>
           = Some secret_username"
    and "secret_username \<noteq> []"
    and "JSON_parse sample_rt secret_username = Some ?parsed"
    and "(Inr (Some 3306) :: exn + snum) =
           (if ToBoolean sample_rt (js_get ?parsed ''port'')
            then Number sample_rt (js_get ?parsed ''port'') else Inr (num_lit sample_rt 3306))"
    by (simp_all add: fresh_def sample_sys_def secret_username_def [symmetric] sample_parse_simps
          sample_rt_simps)
       (simp add: secret_username_def)
  from getDbConfig_required_fields [OF this]
  show ?thesis
    by (auto simp: nullish_def js_or_def sample_rt_simps)
qed

subsection \<open>The two copies\<close>

text \<open>
  Claim C9, as stated, fails: with no \<^verbatim>\<open>DB_SECRET_ARN\<close> in the process, the same event
  and the same database, \<^verbatim>\<open>src/index.js\<close> answers \<^verbatim>\<open>500\<close> without a call, and the
  built copy looks the prices up, writes the order and answers \<^verbatim>\<open>201\<close>.
\<close>

theorem createOrder_copies_counterexample:
  "statusCode (fst (createOrder sample_rt sys_no_arn \<lparr>event_body = Some body_ABA\<rparr> fresh)) = 500
   \<and> snd (snd (createOrder sample_rt sys_no_arn \<lparr>event_body = Some body_ABA\<rparr> fresh)) = []
   \<and> statusCode (fst (createOrder_build sample_rt sys_no_arn \<lparr>event_body = Some body_ABA\<rparr> fresh))
       = 201
   \<and> filter is_store_call
        (snd (snd (createOrder_build sample_rt sys_no_arn \<lparr>event_body = Some body_ABA\<rparr> fresh)))
       = [(QueryPrices [Str ''A'', Str ''B'', Str ''A''], Returned),
          (InsertOrder (Some 33), Returned)]"
proof -
  obtain res st1 cs where b: "getPool_build sample_rt sys_no_arn fresh = (res, st1, cs)"
    by (cases "getPool_build sample_rt sys_no_arn fresh") auto
  then obtain p where res: "res = Inr p"
    using sample_no_arn(2) by (cases res) auto
  have cs: "filter is_store_call cs = []"
    using b by (rule getPool_build_trace)
  have "createOrder sample_rt sys_no_arn \<lparr>event_body = Some body_ABA\<rparr> fresh =
          (response sample_rt 500 (Obj [(''error'', Str ''DB_ERROR'')]), fresh, [])"
    by (simp add: createOrder_def get_prop_def nullish_def Array_isArray_def elements_def
          sample_parse_simps sample_bodies_nonempty sample_carts_nonempty sample_no_arn)
  moreover have "createOrder_build sample_rt sys_no_arn \<lparr>event_body = Some body_ABA\<rparr> fresh =
          (response sample_rt 201 (Obj [(''status'', Str ''ok''), (''total'', Num (Some 33))]),
           st1,
           cs @ [(QueryPrices [Str ''A'', Str ''B'', Str ''A''], Returned),
                 (InsertOrder (Some 33), Returned)])"
    by (simp add: createOrder_build_def get_prop_def nullish_def Array_isArray_def elements_def
          sample_parse_simps sample_bodies_nonempty sample_carts_nonempty sample_no_arn b res
          sample_map_prop sample_query_prices sample_price_entries sample_total_loop
          sample_rt_simps)
  ultimately show ?thesis
    using cs by (simp add: is_store_call_def)
qed

text \<open>
  Claim C9, amended.  The two copies obtain the pool differently (the secret store in
  \<^verbatim>\<open>src/index.js\<close>, process variables in the built copy).  Whenever obtaining it
  succeeds in both or fails in both, for the same event and the same behaviour of the
  collaborators, the two \<open>createOrder\<close> return the same envelope and issue the same
  catalog-lookup and order-store calls.
\<close>

theorem createOrder_copies_agree:
  assumes "isl (fst (getPool rt sys st)) = isl (fst (getPool_build rt sys st'))"
  shows "fst (createOrder rt sys ev st) = fst (createOrder_build rt sys ev st')
       \<and> filter is_store_call (snd (snd (createOrder rt sys ev st)))
         = filter is_store_call (snd (snd (createOrder_build rt sys ev st')))"
proof -
  obtain res st1 cs where a: "getPool rt sys st = (res, st1, cs)"
    by (cases "getPool rt sys st") auto
  obtain res' st1' cs' where b: "getPool_build rt sys st' = (res', st1', cs')"
    by (cases "getPool_build rt sys st'") auto
  have cs: "filter is_store_call cs = []" "filter is_store_call cs' = []"
    using a b by (auto dest: getPool_store_calls getPool_build_trace)
  have "isl res = isl res'"
    using assms a b by simp
  then show ?thesis
    using cs
    by (cases res; cases res')
       (auto simp: createOrder_def createOrder_build_def a b Let_def is_store_call_def
          split: option.splits sum.splits loop_result.splits)
qed

theorem createOrder_copies_agree_witness:
  "fst (createOrder sample_rt sample_sys \<lparr>event_body = Some body_ABA\<rparr> fresh)
     = fst (createOrder_build sample_rt sample_sys \<lparr>event_body = Some body_ABA\<rparr> fresh)
   \<and> filter is_store_call
        (snd (snd (createOrder sample_rt sample_sys \<lparr>event_body = Some body_ABA\<rparr> fresh)))
     = filter is_store_call
        (snd (snd (createOrder_build sample_rt sample_sys \<lparr>event_body = Some body_ABA\<rparr> fresh)))"
proof -
  have "isl (fst (getPool sample_rt sample_sys fresh))
          = isl (fst (getPool_build sample_rt sample_sys fresh))"
    using sample_build_fresh by (auto simp: sample_getPool_fresh)
  then show ?thesis
    by (rule createOrder_copies_agree)
qed

subsection \<open>Every invocation returns an envelope\<close>

text \<open>
  Claim C10.  For every event, environment and state, \<open>createOrder\<close> and
  \<open>getProducts\<close> return an envelope (every exception inside is a branch that ends in
  one): its status is among 201, 400, 500 for \<open>createOrder\<close> and among 200, 500 for
  \<open>getProducts\<close>, and its body is \<^verbatim>\<open>JSON.stringify\<close> of an object (for the
  \<^verbatim>\<open>200\<close> of \<open>getProducts\<close>, of the array of rows).
\<close>

theorem handlers_never_throw:
  "statusCode (fst (createOrder rt sys ev st)) \<in> {201, 400, 500}
   \<and> (\<exists>kvs. body (fst (createOrder rt sys ev st)) = JSON_stringify rt (Obj kvs))
   \<and> headers (fst (createOrder rt sys ev st)) = headers (health rt)
   \<and> statusCode (fst (getProducts rt sys st)) \<in> {200, 500}
   \<and> (\<exists>v. is_object v \<and> body (fst (getProducts rt sys st)) = JSON_stringify rt v)
   \<and> headers (fst (getProducts rt sys st)) = headers (health rt)"
proof -
  have ret: "total_loop rt pm its t = Inr (Return r) \<Longrightarrow>
      statusCode r = 400 \<and> (\<exists>kvs. body r = JSON_stringify rt (Obj kvs))
      \<and> headers r = headers (health rt)" for pm its t r
    by (auto dest!: total_loop_Return simp: response_def health_def)
  have "statusCode (fst (createOrder rt sys ev st)) \<in> {201, 400, 500}
     \<and> (\<exists>kvs. body (fst (createOrder rt sys ev st)) = JSON_stringify rt (Obj kvs))
     \<and> headers (fst (createOrder rt sys ev st)) = headers (health rt)"
    by (auto simp: createOrder_def Let_def response_def health_def
          split: option.splits sum.splits prod.splits loop_result.splits
          dest: ret)
  moreover have "statusCode (fst (getProducts rt sys st)) \<in> {200, 500}
     \<and> (\<exists>v. is_object v \<and> body (fst (getProducts rt sys st)) = JSON_stringify rt v)
     \<and> headers (fst (getProducts rt sys st)) = headers (health rt)"
    by (auto simp: getProducts_def response_def health_def
          split: sum.splits prod.splits intro: exI [of _ "Obj kvs" for kvs] exI [of _ "Arr xs" for xs])
  ultimately show ?thesis by simp
qed

theorem handlers_never_throw_witness:
  "statusCode (fst (createOrder sample_rt sample_sys \<lparr>event_body = Some body_AxB\<rparr> warm))
     \<in> {201, 400, 500}
   \<and> (\<exists>kvs. body (fst (createOrder sample_rt sample_sys \<lparr>event_body = Some body_AxB\<rparr> warm))
        = JSON_stringify sample_rt (Obj kvs))
   \<and> statusCode (fst (getProducts sample_rt sample_sys warm)) \<in> {200, 500}"
  using handlers_never_throw [of sample_rt sample_sys "\<lparr>event_body = Some body_AxB\<rparr>" warm]
  by simp

end
